theory Spec2Isabelle
  imports Main "HOL-Library.AList"
begin

section \<open>Data model\<close>

text \<open>
  Cells of \<^verbatim>\<open>@ton/core\<close>: a bit string, references to other cells and the exotic
  flag. A \<^verbatim>\<open>Buffer\<close> is a list of bytes, each a natural number below 256.
\<close>

datatype cell = Cell (isExotic: bool) (bits: "bool list") (refs: "cell list")

type_synonym buffer = "nat list"

text \<open>
  JavaScript errors. Each \<^verbatim>\<open>throw new Error(...)\<close> of the sources is a constructor
  that carries the values interpolated into its message; \<open>RangeError\<close> is what a slice
  raises when read past its end, \<open>SyntaxError\<close> what \<^verbatim>\<open>BigInt(string)\<close> raises,
  \<open>TypeError\<close> a property read on \<^verbatim>\<open>undefined\<close>, and \<open>ExternalError\<close> any
  failure of a collaborator outside the sources (network, codec, executor).
\<close>

datatype error =
    CannotFindTransactionInfo
  | CannotFindShardBlock
  | RootHashMismatch string string
  | TransactionFailedForLt int string string
  | TransactionFailed string
  | NoInMessage
  | NoInMessageInResult
  | InvalidSrcAddress
  | InvalidDestAddress
  | NonGenericTransaction string
  | ExoticCellsCannotBeParsed
  | RangeError
  | SyntaxError
  | TypeError
  | ExternalError string

datatype address = Address (workChain: int) (hash: nat)

datatype externalAddress = ExternalAddress nat nat

text \<open>
  \<^verbatim>\<open>CommonMessageInfo\<close>: only an internal message has a \<^verbatim>\<open>value\<close>; an
  external-in message has an import fee and an optional external source, an external-out
  message an optional external destination.
\<close>

datatype commonMessageInfo =
    Internal (bounced: bool) (src: address) (dest: address) (value_coins: int)
  | ExternalIn "externalAddress option" address int
  | ExternalOut address "externalAddress option"

record stateInit =
  si_code :: "cell option"
  si_data :: "cell option"

record message =
  info :: commonMessageInfo
  init :: "stateInit option"
  body :: cell

datatype computePhase =
    ComputeSkipped
  | ComputeVm (cp_success: bool) (cp_exitCode: int) (cp_vmSteps: int)
      (cp_gasUsed: int) (cp_gasFees: int)

record actionPhase =
  ap_success :: bool
  resultCode :: int

datatype transactionDescription =
    Generic computePhase "actionPhase option"
  | NonGeneric string

record transaction =
  lt :: int
  now :: int
  inMessage :: "message option"
  outMessages :: "(nat \<times> message) list"
  totalFees :: int
  newHash :: buffer
  description :: transactionDescription

section \<open>Slices and buffers\<close>

record slice =
  s_bits :: "bool list"
  s_refs :: "cell list"

text \<open>
  \<^verbatim>\<open>cell.beginParse(allowExotic)\<close> refuses an exotic cell unless exotics are allowed;
  \<^verbatim>\<open>cell.asSlice()\<close> is \<^verbatim>\<open>beginParse()\<close> with the default \<^verbatim>\<open>false\<close>.
\<close>

definition beginParse :: "bool \<Rightarrow> cell \<Rightarrow> error + slice" where
  "beginParse allowExotic c =
     (if isExotic c \<and> \<not> allowExotic then Inl ExoticCellsCannotBeParsed
      else Inr \<lparr>s_bits = bits c, s_refs = refs c\<rparr>)"

definition asSlice :: "cell \<Rightarrow> error + slice" where
  "asSlice c = beginParse False c"

definition remainingBits :: "slice \<Rightarrow> nat" where
  "remainingBits sl = length (s_bits sl)"

text \<open>Big-endian value of a bit string; the first bit is the most significant.\<close>

definition bitsToNat :: "bool list \<Rightarrow> nat" where
  "bitsToNat bs = fold (\<lambda>b acc. 2 * acc + (if b then 1 else 0)) bs 0"

text \<open>\<^verbatim>\<open>slice.loadUint(n)\<close>: reading past the end raises.\<close>

definition loadUint :: "nat \<Rightarrow> slice \<Rightarrow> error + (nat \<times> slice)" where
  "loadUint n sl =
     (if length (s_bits sl) < n then Inl RangeError
      else Inr (bitsToNat (take n (s_bits sl)), sl\<lparr>s_bits := drop n (s_bits sl)\<rparr>))"

fun bytesOf :: "nat \<Rightarrow> bool list \<Rightarrow> buffer" where
  "bytesOf 0 bs = []"
| "bytesOf (Suc n) bs = bitsToNat (take 8 bs) # bytesOf n (drop 8 bs)"

text \<open>\<^verbatim>\<open>slice.loadBuffer(n)\<close>: the next \<open>n\<close> bytes.\<close>

definition loadBuffer :: "nat \<Rightarrow> slice \<Rightarrow> error + (buffer \<times> slice)" where
  "loadBuffer n sl =
     (if length (s_bits sl) < 8 * n then Inl RangeError
      else Inr (bytesOf n (s_bits sl), sl\<lparr>s_bits := drop (8 * n) (s_bits sl)\<rparr>))"

text \<open>\<^verbatim>\<open>buffer.toString("hex")\<close>: two lower-case hexadecimal digits for each byte.\<close>

definition hexDigit :: "nat \<Rightarrow> char" where
  "hexDigit d = (if d < 10 then char_of (48 + d) else char_of (87 + d))"

definition toHex :: "buffer \<Rightarrow> string" where
  "toHex bs = concat (map (\<lambda>b. [hexDigit (b div 16), hexDigit (b mod 16)]) bs)"

text \<open>\<^verbatim>\<open>string.toUpperCase()\<close> on ASCII text, which is all a hexadecimal string holds.\<close>

definition upperChar :: "char \<Rightarrow> char" where
  "upperChar c =
     (let n = (of_char c :: nat)
      in if 97 \<le> n \<and> n \<le> 122 then char_of (n - 32) else c)"

definition toUpperCase :: "string \<Rightarrow> string" where
  "toUpperCase s = map upperChar s"

section \<open>The built-in \<^verbatim>\<open>BigInt(string)\<close>\<close>

text \<open>
  ECMAScript's \<^verbatim>\<open>StringToBigInt\<close>: surrounding white space is dropped, the empty
  string is \<open>0\<close>, a prefix \<^verbatim>\<open>0x\<close>, \<^verbatim>\<open>0o\<close> or \<^verbatim>\<open>0b\<close> (either case) selects the
  base and takes no sign, and a decimal numeral may have one sign. Anything else is a
  \<^verbatim>\<open>SyntaxError\<close>. White space is the ASCII part of the standard's set (strings here
  are byte strings).
\<close>

definition isWhiteSpace :: "char \<Rightarrow> bool" where
  "isWhiteSpace c =
     (let n = (of_char c :: nat) in n = 9 \<or> n = 10 \<or> n = 11 \<or> n = 12 \<or> n = 13 \<or> n = 32)"

definition trim :: "string \<Rightarrow> string" where
  "trim s = rev (dropWhile isWhiteSpace (rev (dropWhile isWhiteSpace s)))"

definition digitOf :: "char \<Rightarrow> nat option" where
  "digitOf c =
     (let n = (of_char c :: nat)
      in if 48 \<le> n \<and> n \<le> 57 then Some (n - 48)
         else if 97 \<le> n \<and> n \<le> 102 then Some (n - 87)
         else if 65 \<le> n \<and> n \<le> 70 then Some (n - 55)
         else None)"

fun parseDigits :: "nat \<Rightarrow> string \<Rightarrow> nat \<Rightarrow> nat option" where
  "parseDigits b [] acc = Some acc"
| "parseDigits b (c # cs) acc =
     (case digitOf c of
        None \<Rightarrow> None
      | Some d \<Rightarrow> if d < b then parseDigits b cs (acc * b + d) else None)"

definition parseNat :: "nat \<Rightarrow> string \<Rightarrow> error + int" where
  "parseNat b s =
     (if s = [] then Inl SyntaxError
      else case parseDigits b s 0 of None \<Rightarrow> Inl SyntaxError | Some n \<Rightarrow> Inr (int n))"

definition BigInt :: "string \<Rightarrow> error + int" where
  "BigInt str =
     (let s = trim str
      in if s = [] then Inr 0
         else if take 2 s = ''0x'' \<or> take 2 s = ''0X'' then parseNat 16 (drop 2 s)
         else if take 2 s = ''0o'' \<or> take 2 s = ''0O'' then parseNat 8 (drop 2 s)
         else if take 2 s = ''0b'' \<or> take 2 s = ''0B'' then parseNat 2 (drop 2 s)
         else if hd s = CHR ''+'' then parseNat 10 (tl s)
         else if hd s = CHR ''-'' then
           (case parseNat 10 (tl s) of Inl e \<Rightarrow> Inl e | Inr n \<Rightarrow> Inr (- n))
         else parseNat 10 s)"

section \<open>Chain locator: the minimum logical time\<close>

text \<open>
  One entry of a shard summary (\<^verbatim>\<open>ShardInfo.transactions\<close>): logical time, hash and
  account, all strings as the API delivers them.
\<close>

record shardTx =
  stx_lt :: string
  stx_hash :: string
  stx_account :: string

record shardInfo =
  sh_workchain :: int
  sh_shard :: string
  sh_seqno :: int
  transactions :: "shardTx list"

record blockInfo =
  shards :: "shardInfo list"

text \<open>
  One turn of the inner loop of \<^verbatim>\<open>computeMinLt\<close>. The conjunction is evaluated left
  to right, so \<^verbatim>\<open>BigInt(txInBlock.lt)\<close> runs, and may raise, only for an entry of the
  account.
\<close>

definition minLtStep :: "string \<Rightarrow> shardTx \<Rightarrow> int \<Rightarrow> error + int" where
  "minLtStep addrStr txInBlock minLt =
     (if stx_account txInBlock = addrStr then
        (case BigInt (stx_lt txInBlock) of
           Inl e \<Rightarrow> Inl e
         | Inr v \<Rightarrow> if v < minLt then Inr v else Inr minLt)
      else Inr minLt)"

fun scanTransactions :: "string \<Rightarrow> shardTx list \<Rightarrow> int \<Rightarrow> error + int" where
  "scanTransactions addrStr [] minLt = Inr minLt"
| "scanTransactions addrStr (t # ts) minLt =
     (case minLtStep addrStr t minLt of
        Inl e \<Rightarrow> Inl e
      | Inr m \<Rightarrow> scanTransactions addrStr ts m)"

fun scanShards :: "string \<Rightarrow> shardInfo list \<Rightarrow> int \<Rightarrow> error + int" where
  "scanShards addrStr [] minLt = Inr minLt"
| "scanShards addrStr (shard # rest) minLt =
     (case scanTransactions addrStr (transactions shard) minLt of
        Inl e \<Rightarrow> Inl e
      | Inr m \<Rightarrow> scanShards addrStr rest m)"

text \<open>
  \<^verbatim>\<open>computeMinLt(tx, address, block)\<close>; \<open>toStr\<close> is \<^verbatim>\<open>Address.toString\<close> of
  \<^verbatim>\<open>@ton/core\<close>.
\<close>

definition computeMinLt ::
  "(address \<Rightarrow> string) \<Rightarrow> transaction \<Rightarrow> address \<Rightarrow> blockInfo \<Rightarrow> error + int" where
  "computeMinLt toStr tx address block = scanShards (toStr address) (shards block) (lt tx)"

text \<open>The entries of all shard summaries of a block, in scanning order.\<close>

definition blockEntries :: "blockInfo \<Rightarrow> shardTx list" where
  "blockEntries block = concat (map transactions (shards block))"

section \<open>Trace assembler: money sent\<close>

text \<open>\<^verbatim>\<open>Dictionary.values()\<close>: the values of the dictionary, in its order.\<close>

definition dict_values :: "('k \<times> 'v) list \<Rightarrow> 'v list" where
  "dict_values d = map snd d"

definition isInternal :: "message \<Rightarrow> bool" where
  "isInternal msg = (case info msg of Internal _ _ _ _ \<Rightarrow> True | _ \<Rightarrow> False)"

text \<open>The loop body of \<^verbatim>\<open>calculateSentTotal\<close>, on the running total.\<close>

definition addSent :: "message \<Rightarrow> int \<Rightarrow> int" where
  "addSent msg tot =
     (case info msg of
        Internal _ _ _ v \<Rightarrow> tot + v
      | _ \<Rightarrow> tot)"

definition calculateSentTotal :: "transaction \<Rightarrow> int" where
  "calculateSentTotal tx = fold addSent (dict_values (outMessages tx)) 0"

section \<open>Accounts, execution results and the collaborators\<close>

datatype accountState =
    Uninit
  | Frozen int
  | Active (code: "cell option") (data: "cell option")

record accountStorage =
  lastTransLt :: int
  balance :: int
  state :: accountState

record account =
  addr :: address
  storage :: accountStorage

record shardAccount =
  account :: "account option"
  lastTransactionLt :: int
  lastTransactionHash :: int

text \<open>
  \<^verbatim>\<open>EmulationResult\<close> of the sandbox executor: the tagged \<^verbatim>\<open>result\<close> and the two log
  streams.
\<close>

record emulationResultSuccess =
  r_transaction :: string
  r_shardAccount :: string
  r_vmLog :: string
  r_actions :: "string option"

datatype emulationOutcome =
    Success emulationResultSuccess
  | Failure (failure_error: string)

record emulationResult =
  result :: emulationOutcome
  logs :: string
  debugLogs :: string

datatype outAction =
    SendMsg nat message
  | SetCode cell
  | Reserve nat int
  | ChangeLibrary nat

record emulatorVersion =
  commitHash :: string
  commitDate :: string

record baseTxInfo =
  b_lt :: int
  b_hash :: buffer
  b_address :: address

record blockRef =
  br_workchain :: int
  br_shard :: string
  br_seqno :: int
  rootHash :: string
  fileHash :: string

record rawTransaction =
  rt_block :: blockRef
  rt_tx :: transaction

record block =
  root_hash :: string
  masterchain_block_ref_seqno :: int
  rand_seed :: string

text \<open>What \<^verbatim>\<open>executor.runTransaction\<close> is given.\<close>

record runTransactionArgs =
  a_config :: string
  a_libs :: "cell option"
  a_shardAccount :: string
  a_message :: message
  a_now :: int
  a_lt :: int
  a_randomSeed :: buffer

text \<open>
  Entries of a parsed VM log (\<^verbatim>\<open>logs.parse\<close> of \<^verbatim>\<open>ton-assembly\<close>), by their tag
  \<^verbatim>\<open>$\<close>, and the stack elements of a stack dump; the kinds the sources do not tell
  apart are \<open>VmOther\<close> and \<open>OtherElement\<close>.
\<close>

datatype stackElement =
    StackCell (boc: string)
  | OtherElement string

datatype vmLine =
    VmStack (stack: "stackElement list")
  | VmExecute (instr: string)
  | VmException int (msg: string)
  | VmExceptionHandler int
  | VmOther string

text \<open>
  The collaborators outside the sources: the chain-data providers, the sandbox executor,
  the codecs of \<^verbatim>\<open>@ton/core\<close> and the log parser. Each is a function of its
  arguments that returns a value or raises.
\<close>

record env =
  findBaseTxByHash :: "bool \<Rightarrow> string \<Rightarrow> error + baseTxInfo option"
  findRawTxByHash :: "bool \<Rightarrow> baseTxInfo \<Rightarrow> error + rawTransaction list"
  findShardBlockForTx :: "bool \<Rightarrow> rawTransaction \<Rightarrow> error + block option"
  findFullBlockForSeqno :: "bool \<Rightarrow> int \<Rightarrow> error + blockInfo"
  findAllTransactionsBetween :: "bool \<Rightarrow> baseTxInfo \<Rightarrow> int \<Rightarrow> error + transaction list"
  getBlockConfig :: "bool \<Rightarrow> blockInfo \<Rightarrow> error + string"
  getBlockAccount :: "bool \<Rightarrow> address \<Rightarrow> blockInfo \<Rightarrow> error + shardAccount"
  getLibraryByHash :: "bool \<Rightarrow> string \<Rightarrow> error + cell"
  Blockchain_create :: "error + emulatorVersion"
  runTransaction :: "runTransactionArgs \<Rightarrow> error + emulationResult"
  addressToString :: "address \<Rightarrow> string"
  Cell_fromBase64 :: "string \<Rightarrow> error + cell"
  Cell_fromHex :: "string \<Rightarrow> error + cell"
  Buffer_fromBase64 :: "string \<Rightarrow> buffer"
  loadShardAccount :: "slice \<Rightarrow> error + shardAccount"
  loadTransaction :: "slice \<Rightarrow> error + transaction"
  loadOutList :: "slice \<Rightarrow> error + outAction list"
  shardAccountToBase64 :: "shardAccount \<Rightarrow> error + string"
  transactionToBocHex :: "transaction \<Rightarrow> error + string"
  storeDictDirect :: "(int \<times> cell) list \<Rightarrow> error + cell"
  logs_parse :: "string \<Rightarrow> error + vmLine list"

text \<open>
  The expression \<^verbatim>\<open>loadShardAccount(Cell.fromBase64(s).asSlice())\<close> and its sibling
  for transactions.
\<close>

definition shardAccountOfBase64 :: "env \<Rightarrow> string \<Rightarrow> error + shardAccount" where
  "shardAccountOfBase64 e s =
     (case Cell_fromBase64 e s of
        Inl err \<Rightarrow> Inl err
      | Inr c \<Rightarrow> (case asSlice c of Inl err \<Rightarrow> Inl err | Inr sl \<Rightarrow> loadShardAccount e sl))"

definition transactionOfBase64 :: "env \<Rightarrow> string \<Rightarrow> error + transaction" where
  "transactionOfBase64 e s =
     (case Cell_fromBase64 e s of
        Inl err \<Rightarrow> Inl err
      | Inr c \<Rightarrow> (case asSlice c of Inl err \<Rightarrow> Inl err | Inr sl \<Rightarrow> loadTransaction e sl))"

text \<open>\<^verbatim>\<open>shardAccount.account?.storage.balance.coins ?? 0n\<close>\<close>

definition balanceOf :: "shardAccount \<Rightarrow> int" where
  "balanceOf sa = (case account sa of None \<Rightarrow> 0 | Some a \<Rightarrow> balance (storage a))"

section \<open>State replayer\<close>

text \<open>
  The engine helper \<^verbatim>\<open>emulate\<close> is asynchronous and has effects; it is a function
  of the transaction, the snapshot and the state of the world \<open>'w\<close>, and returns the
  new state of the world with its outcome.
\<close>

type_synonym 'w engine =
  "transaction \<Rightarrow> string \<Rightarrow> 'w \<Rightarrow> (error + emulationResult) \<times> 'w"

text \<open>The \<^verbatim>\<open>for\<close> loop of \<^verbatim>\<open>emulatePreviousTransactions\<close>.\<close>

fun replayLoop ::
  "env \<Rightarrow> 'w engine \<Rightarrow> transaction list \<Rightarrow> int \<Rightarrow> string \<Rightarrow> 'w \<Rightarrow>
     (error + int \<times> string) \<times> 'w" where
  "replayLoop e emulate [] prevBalance shardAccountBase64 w =
     (Inr (prevBalance, shardAccountBase64), w)"
| "replayLoop e emulate (tx # txs) prevBalance shardAccountBase64 w =
     (case emulate tx shardAccountBase64 w of
        (Inl err, w') \<Rightarrow> (Inl err, w')
      | (Inr res, w') \<Rightarrow>
          (case result res of
             Failure _ \<Rightarrow> (Inl (TransactionFailedForLt (lt tx) (logs res) (debugLogs res)), w')
           | Success r \<Rightarrow>
               (case shardAccountOfBase64 e (r_shardAccount r) of
                  Inl err \<Rightarrow> (Inl err, w')
                | Inr sa \<Rightarrow> replayLoop e emulate txs (balanceOf sa) (r_shardAccount r) w')))"

definition emulatePreviousTransactions ::
  "env \<Rightarrow> int \<Rightarrow> transaction list \<Rightarrow> 'w engine \<Rightarrow> string \<Rightarrow> 'w \<Rightarrow>
     (error + int \<times> string) \<times> 'w" where
  "emulatePreviousTransactions e prevBalance prevTxsInBlock emulate shardAccountBase64 w =
     (if length prevTxsInBlock = 0 then (Inr (prevBalance, shardAccountBase64), w)
      else replayLoop e emulate prevTxsInBlock prevBalance shardAccountBase64 w)"

text \<open>An engine that records every invocation in the state of the world.\<close>

definition recording ::
  "(transaction \<Rightarrow> string \<Rightarrow> error + emulationResult) \<Rightarrow> (transaction \<times> string) list engine" where
  "recording f tx s calls = (f tx s, calls @ [(tx, s)])"

section \<open>Trace assembler: the final data\<close>

datatype computeInfo =
    Skipped
  | ComputeInfo (ci_success: bool) (exitCode: int) (vmSteps: int) (gasUsed: int) (gasFees: int)

record traceMoneyResult =
  balanceBefore :: int
  sentTotal :: int
  m_totalFees :: int
  balanceAfter :: int

record finalData =
  fd_sender :: "address option"
  fd_contract :: address
  fd_money :: traceMoneyResult
  fd_emulatedTx :: transaction
  fd_amount :: "int option"
  fd_computeInfo :: computeInfo

text \<open>
  \<^verbatim>\<open>info.src ?? undefined\<close> followed by the test \<^verbatim>\<open>Address.isAddress\<close>: an
  external source that is present is not an address.
\<close>

definition srcOf :: "commonMessageInfo \<Rightarrow> error + address option" where
  "srcOf i =
     (case i of
        Internal _ s _ _ \<Rightarrow> Inr (Some s)
      | ExternalIn None _ _ \<Rightarrow> Inr None
      | ExternalIn (Some _) _ _ \<Rightarrow> Inl InvalidSrcAddress
      | ExternalOut s _ \<Rightarrow> Inr (Some s))"

definition destOf :: "commonMessageInfo \<Rightarrow> error + address" where
  "destOf i =
     (case i of
        Internal _ _ d _ \<Rightarrow> Inr d
      | ExternalIn _ d _ \<Rightarrow> Inr d
      | ExternalOut _ _ \<Rightarrow> Inl InvalidDestAddress)"

definition amountOf :: "commonMessageInfo \<Rightarrow> int option" where
  "amountOf i = (case i of Internal _ _ _ v \<Rightarrow> Some v | _ \<Rightarrow> None)"

text \<open>The compute-phase summary of a generic transaction.\<close>

definition computeInfoOf :: "computePhase \<Rightarrow> actionPhase option \<Rightarrow> computeInfo" where
  "computeInfoOf cp ap =
     (case cp of
        ComputeSkipped \<Rightarrow> Skipped
      | ComputeVm ok ec steps used fees \<Rightarrow>
          ComputeInfo ok
            (if ec = 0 then (case ap of None \<Rightarrow> 0 | Some a \<Rightarrow> resultCode a) else ec)
            steps used fees)"

definition computeFinalData :: "env \<Rightarrow> emulationResultSuccess \<Rightarrow> int \<Rightarrow> error + finalData" where
  "computeFinalData e res balBefore =
     (case shardAccountOfBase64 e (r_shardAccount res) of
        Inl err \<Rightarrow> Inl err
      | Inr sa \<Rightarrow>
     (case transactionOfBase64 e (r_transaction res) of
        Inl err \<Rightarrow> Inl err
      | Inr emulatedTx \<Rightarrow>
     (case inMessage emulatedTx of
        None \<Rightarrow> Inl NoInMessageInResult
      | Some inMsg \<Rightarrow>
     (case srcOf (info inMsg) of
        Inl err \<Rightarrow> Inl err
      | Inr sender \<Rightarrow>
     (case destOf (info inMsg) of
        Inl err \<Rightarrow> Inl err
      | Inr contract \<Rightarrow>
     (case description emulatedTx of
        NonGeneric ty \<Rightarrow> Inl (NonGenericTransaction ty)
      | Generic cp ap \<Rightarrow>
          Inr \<lparr>fd_sender = sender,
               fd_contract = contract,
               fd_money = \<lparr>balanceBefore = balBefore,
                            sentTotal = calculateSentTotal emulatedTx,
                            m_totalFees = totalFees emulatedTx,
                            balanceAfter = balanceOf sa\<rparr>,
               fd_emulatedTx = emulatedTx,
               fd_amount = amountOf (info inMsg),
               fd_computeInfo = computeInfoOf cp ap\<rparr>))))))"

text \<open>\<^verbatim>\<open>findFinalActions\<close>: the decoded action list and the cell of register c5.\<close>

definition findFinalActions ::
  "env \<Rightarrow> emulationResultSuccess \<Rightarrow> error + outAction list \<times> cell option" where
  "findFinalActions e res =
     (case r_actions res of
        None \<Rightarrow> Inr ([], None)
      | Some actions \<Rightarrow>
          (case Cell_fromBase64 e actions of
             Inl err \<Rightarrow> Inl err
           | Inr c5 \<Rightarrow>
               (case asSlice c5 of
                  Inl err \<Rightarrow> Inl err
                | Inr sl \<Rightarrow>
                    (case loadOutList e sl of
                       Inl err \<Rightarrow> Inl err
                     | Inr finalActions \<Rightarrow> Inr (finalActions, Some c5)))))"

section \<open>The opcode of the incoming message\<close>

definition isBounced :: "message option \<Rightarrow> bool" where
  "isBounced m =
     (case m of
        None \<Rightarrow> False
      | Some inMsg \<Rightarrow> (case info inMsg of Internal b _ _ _ \<Rightarrow> b | _ \<Rightarrow> False))"

definition txOpcode :: "transaction \<Rightarrow> error + nat option" where
  "txOpcode tx =
     (case inMessage tx of
        None \<Rightarrow> Inr None
      | Some inMsg \<Rightarrow>
          (case asSlice (body inMsg) of
             Inl err \<Rightarrow> Inl err
           | Inr sl \<Rightarrow>
               (case (if isBounced (inMessage tx)
                      then (case loadUint 32 sl of Inl err \<Rightarrow> Inl err | Inr (_, sl') \<Rightarrow> Inr sl')
                      else Inr sl) of
                  Inl err \<Rightarrow> Inl err
                | Inr sl1 \<Rightarrow>
                    if remainingBits sl1 \<ge> 32 then
                      (case loadUint 32 sl1 of
                         Inl err \<Rightarrow> Inl err
                       | Inr (opcode, _) \<Rightarrow> Inr (Some opcode))
                    else Inr None)))"

section \<open>Library resolver\<close>

definition EXOTIC_LIBRARY_TAG :: nat where
  "EXOTIC_LIBRARY_TAG = 2"

text \<open>
  A \<^verbatim>\<open>Dictionary\<close> keeps one value for each key, in the order of first insertion;
  \<^verbatim>\<open>set\<close> is \<^const>\<open>AList.update\<close>.
\<close>

type_synonym libs = "(int \<times> cell) list"

text \<open>
  The local function \<^verbatim>\<open>addMaybeExoticLibrary\<close> of \<^verbatim>\<open>collectUsedLibraries\<close>; the
  dictionary \<^verbatim>\<open>libs\<close> it writes to is passed in and returned.
\<close>

definition addMaybeExoticLibrary ::
  "env \<Rightarrow> bool \<Rightarrow> libs \<Rightarrow> cell option \<Rightarrow> error + cell option \<times> libs" where
  "addMaybeExoticLibrary e testnet ls codeOpt =
     (case codeOpt of
        None \<Rightarrow> Inr (None, ls)
      | Some c \<Rightarrow>
          if length (bits c) \<noteq> 256 + 8 then Inr (None, ls)
          else
            (case beginParse True c of
               Inl err \<Rightarrow> Inl err
             | Inr cs \<Rightarrow>
            (case loadUint 8 cs of
               Inl err \<Rightarrow> Inl err
             | Inr (tag, cs1) \<Rightarrow>
                 if tag \<noteq> EXOTIC_LIBRARY_TAG then Inr (None, ls)
                 else
                   (case loadBuffer 32 cs1 of
                      Inl err \<Rightarrow> Inl err
                    | Inr (libHash, _) \<Rightarrow>
                        (let libHashHex = toUpperCase (toHex libHash)
                         in case getLibraryByHash e testnet libHashHex of
                              Inl err \<Rightarrow> Inl err
                            | Inr actualCode \<Rightarrow>
                                (case BigInt (''0x'' @ libHashHex) of
                                   Inl err \<Rightarrow> Inl err
                                 | Inr k \<Rightarrow>
                                     Inr (Some actualCode, AList.update k actualCode ls)))))))"

text \<open>\<^verbatim>\<open>account.account?.storage.state\<close>\<close>

definition stateOf :: "shardAccount \<Rightarrow> accountState option" where
  "stateOf sa = (case account sa of None \<Rightarrow> None | Some a \<Rightarrow> Some (state (storage a)))"

text \<open>\<^verbatim>\<open>tx.inMessage?.init\<close>\<close>

definition initOf :: "transaction \<Rightarrow> stateInit option" where
  "initOf tx = (case inMessage tx of None \<Rightarrow> None | Some m \<Rightarrow> init m)"

text \<open>
  \<^verbatim>\<open>collectUsedLibraries\<close> up to the loop over \<^verbatim>\<open>additionalLibs\<close>: the resolved
  code and the dictionary. The assignment \<^verbatim>\<open>loadedCellCode ??= await f(...)\<close>
  evaluates its right-hand side only when \<^verbatim>\<open>loadedCellCode\<close> is still undefined.
\<close>

definition scanCodes ::
  "env \<Rightarrow> bool \<Rightarrow> shardAccount \<Rightarrow> transaction \<Rightarrow> libs \<Rightarrow> error + cell option \<times> libs" where
  "scanCodes e testnet acc tx additionalLibs =
     (case (case stateOf acc of
              Some (Active c _) \<Rightarrow> addMaybeExoticLibrary e testnet [] c
            | _ \<Rightarrow> Inr (None, [])) of
        Inl err \<Rightarrow> Inl err
      | Inr (loaded1, libs1) \<Rightarrow>
     (case (case initOf tx of
              None \<Rightarrow> Inr (loaded1, libs1)
            | Some ini \<Rightarrow>
                (case loaded1 of
                   Some _ \<Rightarrow> Inr (loaded1, libs1)
                 | None \<Rightarrow> addMaybeExoticLibrary e testnet libs1 (si_code ini))) of
        Inl err \<Rightarrow> Inl err
      | Inr (loadedCellCode, libs2) \<Rightarrow>
          Inr (loadedCellCode, fold (\<lambda>(h, lib) d. AList.update h lib d) additionalLibs libs2)))"

text \<open>\<^verbatim>\<open>collectUsedLibraries\<close>: the scan, then the dictionary as a cell if it is not empty.\<close>

definition collectUsedLibraries ::
  "env \<Rightarrow> bool \<Rightarrow> shardAccount \<Rightarrow> transaction \<Rightarrow> libs \<Rightarrow> error + cell option \<times> cell option" where
  "collectUsedLibraries e testnet acc tx additionalLibs =
     (case scanCodes e testnet acc tx additionalLibs of
        Inl err \<Rightarrow> Inl err
      | Inr (loadedCellCode, libs3) \<Rightarrow>
          if length libs3 = 0 then Inr (None, loadedCellCode)
          else (case storeDictDirect e libs3 of
                  Inl err \<Rightarrow> Inl err
                | Inr c \<Rightarrow> Inr (Some c, loadedCellCode)))"

text \<open>\<^verbatim>\<open>tryLoadAsLibrary\<close> of the retry controller.\<close>

definition tryLoadAsLibrary :: "env \<Rightarrow> string \<Rightarrow> bool \<Rightarrow> error + (string \<times> cell) option" where
  "tryLoadAsLibrary e cellHex testnet =
     (case Cell_fromHex e cellHex of
        Inl err \<Rightarrow> Inl err
      | Inr libCell \<Rightarrow>
          if length (bits libCell) \<noteq> 256 + 8 then Inr None
          else
            (case beginParse True libCell of
               Inl err \<Rightarrow> Inl err
             | Inr cs \<Rightarrow>
            (case loadUint 8 cs of
               Inl err \<Rightarrow> Inl err
             | Inr (tag, cs1) \<Rightarrow>
                 if tag \<noteq> EXOTIC_LIBRARY_TAG then Inr None
                 else
                   (case loadBuffer 32 cs1 of
                      Inl err \<Rightarrow> Inl err
                    | Inr (libHash, _) \<Rightarrow>
                        (let libHashHex = toUpperCase (toHex libHash)
                         in case getLibraryByHash e testnet libHashHex of
                              Inl err \<Rightarrow> Inl err
                            | Inr actualCode \<Rightarrow> Inr (Some (libHashHex, actualCode)))))))"

text \<open>
  The detection rule in the words of the specification: exactly 264 bits, the first
  eight of them the tag 2; the hash is the number the following 256 bits spell.
\<close>

definition isLibraryFragment :: "cell \<Rightarrow> bool" where
  "isLibraryFragment c \<longleftrightarrow> length (bits c) = 264 \<and> bitsToNat (take 8 (bits c)) = 2"

definition fragmentHash :: "cell \<Rightarrow> nat" where
  "fragmentHash c = bitsToNat (take 256 (drop 8 (bits c)))"

definition fragmentHashHex :: "cell \<Rightarrow> string" where
  "fragmentHashHex c = toUpperCase (toHex (bytesOf 32 (drop 8 (bits c))))"

section \<open>Retry controller\<close>

record traceInMessage =
  sender :: "address option"
  contract :: address
  amount :: "int option"
  opcode :: "nat option"

record traceEmulatedTx =
  raw :: string
  utime :: int
  t_lt :: int
  computeInfo :: computeInfo
  executorLogs :: string
  actions :: "outAction list"
  c5 :: "cell option"
  vmLogs :: string

record traceResult =
  stateUpdateHashOk :: bool
  codeCell :: "cell option"
  originalCodeCell :: "cell option"
  inMsg :: traceInMessage
  money :: traceMoneyResult
  emulatedTx :: traceEmulatedTx
  emulatorVersion :: emulatorVersion

text \<open>
  \<^verbatim>\<open>prepareEmulator\<close>: the helper \<^verbatim>\<open>emulate\<close> it returns. Serialising the message
  is part of \<open>runTransaction\<close> here.
\<close>

definition emulate ::
  "env \<Rightarrow> string \<Rightarrow> cell option \<Rightarrow> buffer \<Rightarrow> transaction \<Rightarrow> string \<Rightarrow> error + emulationResult" where
  "emulate e blockConfig ls randSeed tx shardAccountBase64 =
     (case inMessage tx of
        None \<Rightarrow> Inl NoInMessage
      | Some m \<Rightarrow>
          runTransaction e
            \<lparr>a_config = blockConfig, a_libs = ls, a_shardAccount = shardAccountBase64,
             a_message = m, a_now = now tx, a_lt = lt tx, a_randomSeed = randSeed\<rparr>)"

text \<open>
  What \<^verbatim>\<open>retraceBaseTx\<close> holds once the target transaction has been emulated (its
  lines up to \<^verbatim>\<open>const txRes = await emulate(ourTx, shardAccountBase64)\<close>).
\<close>

record reconstruction =
  rc_ourTx :: transaction
  rc_loadedCode :: "cell option"
  rc_codeCell :: "cell option"
  rc_emulatorVersion :: emulatorVersion
  rc_prevBalance :: int
  rc_txRes :: emulationResult

text \<open>The engine of the replayer inside the pipeline: no state of the world is kept.\<close>

definition pureEngine ::
  "(transaction \<Rightarrow> string \<Rightarrow> error + emulationResult) \<Rightarrow> unit engine" where
  "pureEngine f tx s u = (f tx s, u)"

text \<open>
  The first part of \<^verbatim>\<open>retraceBaseTx\<close>. The array pattern
  \<^verbatim>\<open>[ourTx, ...prevTxsInBlock]\<close> leaves \<^verbatim>\<open>ourTx\<close> undefined on an empty answer, and
  \<^verbatim>\<open>emulate\<close> then raises a \<^verbatim>\<open>TypeError\<close> when it reads \<^verbatim>\<open>tx.inMessage\<close>.
\<close>

definition reconstruct :: "env \<Rightarrow> bool \<Rightarrow> baseTxInfo \<Rightarrow> libs \<Rightarrow> error + reconstruction" where
  "reconstruct e testnet baseTx additionalLibs =
     (case findRawTxByHash e testnet baseTx of
        Inl err \<Rightarrow> Inl err
      | Inr [] \<Rightarrow> Inl CannotFindTransactionInfo
      | Inr (tx # _) \<Rightarrow>
     (case findShardBlockForTx e testnet tx of
        Inl err \<Rightarrow> Inl err
      | Inr None \<Rightarrow> Inl CannotFindShardBlock
      | Inr (Some blk) \<Rightarrow>
          if root_hash blk \<noteq> rootHash (rt_block tx)
          then Inl (RootHashMismatch (rootHash (rt_block tx)) (root_hash blk))
          else
     (let mcSeqno = masterchain_block_ref_seqno blk;
          randSeed = Buffer_fromBase64 e (rand_seed blk)
      in
     (case findFullBlockForSeqno e testnet mcSeqno of
        Inl err \<Rightarrow> Inl err
      | Inr fullBlock \<Rightarrow>
     (case computeMinLt (addressToString e) (rt_tx tx) (b_address baseTx) fullBlock of
        Inl err \<Rightarrow> Inl err
      | Inr minLt \<Rightarrow>
     (case findAllTransactionsBetween e testnet baseTx minLt of
        Inl err \<Rightarrow> Inl err
      | Inr allTxs \<Rightarrow>
     (let ourTx = (case allTxs of [] \<Rightarrow> None | t # _ \<Rightarrow> Some t);
          prevTxsInBlock = rev (tl allTxs)
      in
     (case getBlockConfig e testnet fullBlock of
        Inl err \<Rightarrow> Inl err
      | Inr blockConfig \<Rightarrow>
     (case getBlockAccount e testnet (b_address baseTx) fullBlock of
        Inl err \<Rightarrow> Inl err
      | Inr shardAccountBeforeTx \<Rightarrow>
     (case collectUsedLibraries e testnet shardAccountBeforeTx (rt_tx tx) additionalLibs of
        Inl err \<Rightarrow> Inl err
      | Inr (ls, loadedCode) \<Rightarrow>
     (let cCell = (case stateOf shardAccountBeforeTx of
                     Some (Active c _) \<Rightarrow> c
                   | _ \<Rightarrow> (case initOf (rt_tx tx) of None \<Rightarrow> None | Some ini \<Rightarrow> si_code ini))
      in
     (case Blockchain_create e of
        Inl err \<Rightarrow> Inl err
      | Inr version \<Rightarrow>
     (case shardAccountToBase64 e
             (shardAccountBeforeTx\<lparr>lastTransactionLt := 0, lastTransactionHash := 0\<rparr>) of
        Inl err \<Rightarrow> Inl err
      | Inr initialShardAccountBase64 \<Rightarrow>
     (case fst (emulatePreviousTransactions e (balanceOf shardAccountBeforeTx) prevTxsInBlock
                  (pureEngine (emulate e blockConfig ls randSeed)) initialShardAccountBase64 ()) of
        Inl err \<Rightarrow> Inl err
      | Inr (prevBal, shardAccountBase64) \<Rightarrow>
     (case ourTx of
        None \<Rightarrow> Inl TypeError
      | Some our \<Rightarrow>
     (case emulate e blockConfig ls randSeed our shardAccountBase64 of
        Inl err \<Rightarrow> Inl err
      | Inr txRes \<Rightarrow>
          Inr \<lparr>rc_ourTx = our, rc_loadedCode = loadedCode, rc_codeCell = cCell,
               rc_emulatorVersion = version, rc_prevBalance = prevBal,
               rc_txRes = txRes\<rparr>))))))))))))))))"

text \<open>
  The second part of \<^verbatim>\<open>retraceBaseTx\<close>, from the test of \<^verbatim>\<open>txRes.result.success\<close>
  to the returned report.
\<close>

definition report :: "env \<Rightarrow> reconstruction \<Rightarrow> error + traceResult" where
  "report e rc =
     (case result (rc_txRes rc) of
        Failure err \<Rightarrow> Inl (TransactionFailed err)
      | Success res \<Rightarrow>
     (case findFinalActions e res of
        Inl err \<Rightarrow> Inl err
      | Inr (finalActions, c5cell) \<Rightarrow>
     (case computeFinalData e res (rc_prevBalance rc) of
        Inl err \<Rightarrow> Inl err
      | Inr fd \<Rightarrow>
     (let hashOk = (newHash (fd_emulatedTx fd) = newHash (rc_ourTx rc))
      in
     (case txOpcode (rc_ourTx rc) of
        Inl err \<Rightarrow> Inl err
      | Inr opc \<Rightarrow>
     (case transactionToBocHex e (rc_ourTx rc) of
        Inl err \<Rightarrow> Inl err
      | Inr rawHex \<Rightarrow>
          Inr \<lparr>stateUpdateHashOk = hashOk,
               codeCell = (case rc_loadedCode rc of Some c \<Rightarrow> Some c | None \<Rightarrow> rc_codeCell rc),
               originalCodeCell = rc_codeCell rc,
               inMsg = \<lparr>sender = fd_sender fd, contract = fd_contract fd,
                        amount = fd_amount fd, opcode = opc\<rparr>,
               money = fd_money fd,
               emulatedTx = \<lparr>raw = rawHex,
                             utime = now (fd_emulatedTx fd),
                             t_lt = lt (fd_emulatedTx fd),
                             computeInfo = fd_computeInfo fd,
                             executorLogs = logs (rc_txRes rc),
                             actions = finalActions,
                             c5 = c5cell,
                             vmLogs = r_vmLog res\<rparr>,
               emulatorVersion = rc_emulatorVersion rc\<rparr>))))))"

definition retraceBaseTx :: "env \<Rightarrow> bool \<Rightarrow> baseTxInfo \<Rightarrow> libs \<Rightarrow> error + traceResult" where
  "retraceBaseTx e testnet baseTx additionalLibs =
     (case reconstruct e testnet baseTx additionalLibs of
        Inl err \<Rightarrow> Inl err
      | Inr rc \<Rightarrow> report e rc)"

text \<open>\<^verbatim>\<open>array.at(-k)\<close> for \<open>k \<ge> 1\<close>: undefined when the array has fewer than \<open>k\<close> entries.\<close>

definition atFromEnd :: "'a list \<Rightarrow> nat \<Rightarrow> 'a option" where
  "atFromEnd xs k = (if 1 \<le> k \<and> k \<le> length xs then Some (xs ! (length xs - k)) else None)"

text \<open>
  The test of \<^verbatim>\<open>retrace\<close> on the tail of the parsed log: the stack dump it found,
  if the four entries are as required.
\<close>

definition missingLibrarySignature :: "vmLine list \<Rightarrow> stackElement list option" where
  "missingLibrarySignature lines =
     (case (atFromEnd lines 2, atFromEnd lines 3, atFromEnd lines 4, atFromEnd lines 6) of
        (Some (VmExceptionHandler _), Some (VmException _ m), Some (VmExecute i), Some (VmStack st)) \<Rightarrow>
          if m = ''failed to load library cell'' \<and> i = ''CTOS'' then Some st else None
      | _ \<Rightarrow> None)"

text \<open>
  What \<^verbatim>\<open>retrace\<close> does with a finished report: \<open>None\<close> to return it, or the
  library to add before running again. The log is parsed only for exit code 9;
  \<^verbatim>\<open>logs.parse\<close> and \<open>tryLoadAsLibrary\<close> may raise, and nothing catches that.
\<close>

definition diagnose :: "env \<Rightarrow> bool \<Rightarrow> traceResult \<Rightarrow> error + (int \<times> cell) option" where
  "diagnose e testnet res =
     (case computeInfo (emulatedTx res) of
        Skipped \<Rightarrow> Inr None
      | ComputeInfo _ ec _ _ _ \<Rightarrow>
          if ec = 0 then Inr None
          else if ec = 9 then
            (case logs_parse e (vmLogs (emulatedTx res)) of
               Inl err \<Rightarrow> Inl err
             | Inr lines \<Rightarrow>
            (case missingLibrarySignature lines of
               None \<Rightarrow> Inr None
             | Some st \<Rightarrow>
                 (case atFromEnd st 1 of
                    Some (StackCell b) \<Rightarrow>
                      (case tryLoadAsLibrary e b testnet of
                         Inl err \<Rightarrow> Inl err
                       | Inr None \<Rightarrow> Inr None
                       | Inr (Some (libHashHex, actualCode)) \<Rightarrow>
                           (case BigInt (''0x'' @ libHashHex) of
                              Inl err \<Rightarrow> Inl err
                            | Inr k \<Rightarrow> Inr (Some (k, actualCode))))
                  | _ \<Rightarrow> Inr None)))
          else Inr None)"

text \<open>
  \<^verbatim>\<open>retrace\<close> calls itself with one more library and nothing bounds the number of
  rounds; the first argument is the number of runs of the pipeline still allowed, and
  \<open>None\<close> means that they did not suffice.
\<close>

fun retrace :: "nat \<Rightarrow> env \<Rightarrow> bool \<Rightarrow> string \<Rightarrow> libs \<Rightarrow> (error + traceResult) option" where
  "retrace 0 e testnet txLink additionalLibs = None"
| "retrace (Suc n) e testnet txLink additionalLibs =
     (case findBaseTxByHash e testnet txLink of
        Inl err \<Rightarrow> Some (Inl err)
      | Inr None \<Rightarrow> Some (Inl CannotFindTransactionInfo)
      | Inr (Some baseTx) \<Rightarrow>
          (case retraceBaseTx e testnet baseTx additionalLibs of
             Inl err \<Rightarrow> Some (Inl err)
           | Inr res \<Rightarrow>
               (case diagnose e testnet res of
                  Inl err \<Rightarrow> Some (Inl err)
                | Inr None \<Rightarrow> Some (Inr res)
                | Inr (Some additionalLib) \<Rightarrow>
                    retrace n e testnet txLink (additionalLibs @ [additionalLib]))))"

section \<open>Vocabulary of the properties and sample inputs\<close>

text \<open>The entries of a block that belong to the account with the given printed address.\<close>

definition matchingEntries :: "string \<Rightarrow> blockInfo \<Rightarrow> shardTx list" where
  "matchingEntries addrStr block = filter (\<lambda>t. stx_account t = addrStr) (blockEntries block)"

text \<open>The logical time of an entry whose string is a numeral.\<close>

definition entryLt :: "shardTx \<Rightarrow> int" where
  "entryLt t = (case BigInt (stx_lt t) of Inr v \<Rightarrow> v | Inl _ \<Rightarrow> 0)"

definition sampleAddress :: address where
  "sampleAddress = Address 0 1"

definition otherAddress :: address where
  "otherAddress = Address 0 2"

definition sampleToString :: "address \<Rightarrow> string" where
  "sampleToString a = (if hash a = 1 then ''EQA'' else ''EQB'')"

definition emptyCell :: cell where
  "emptyCell = Cell False [] []"

definition internalMessage :: "bool \<Rightarrow> int \<Rightarrow> cell \<Rightarrow> message" where
  "internalMessage b v c =
     \<lparr>info = Internal b otherAddress sampleAddress v, init = None, body = c\<rparr>"

definition externalOutMessage :: message where
  "externalOutMessage = \<lparr>info = ExternalOut sampleAddress None, init = None, body = emptyCell\<rparr>"

definition sampleDescription :: transactionDescription where
  "sampleDescription = Generic (ComputeVm True 0 10 5 7) (Some \<lparr>ap_success = False, resultCode = 37\<rparr>)"

definition sampleTx :: transaction where
  "sampleTx =
     \<lparr>lt = 100, now = 1700000000,
      inMessage = Some (internalMessage False 5 emptyCell),
      outMessages = [(0, internalMessage False 3 emptyCell), (1, externalOutMessage),
                     (2, internalMessage False 4 emptyCell)],
      totalFees = 2, newHash = [1, 2, 3], description = sampleDescription\<rparr>"

definition sampleBlock :: blockInfo where
  "sampleBlock =
     \<lparr>shards =
        [\<lparr>sh_workchain = 0, sh_shard = ''8000000000000000'', sh_seqno = 7,
          transactions =
            [\<lparr>stx_lt = ''90'', stx_hash = ''h1'', stx_account = ''EQA''\<rparr>,
             \<lparr>stx_lt = ''50'', stx_hash = ''h2'', stx_account = ''EQB''\<rparr>]\<rparr>,
         \<lparr>sh_workchain = -1, sh_shard = ''8000000000000000'', sh_seqno = 9,
          transactions =
            [\<lparr>stx_lt = ''120'', stx_hash = ''h3'', stx_account = ''EQA''\<rparr>]\<rparr>]\<rparr>"

text \<open>
  One successful step of a replay on the pure engine \<open>f\<close>: the engine succeeds on the
  snapshot \<open>s\<close>, returns the snapshot \<open>s'\<close>, and \<open>s'\<close> decodes.
\<close>

definition stepOk ::
  "env \<Rightarrow> (transaction \<Rightarrow> string \<Rightarrow> error + emulationResult) \<Rightarrow>
     transaction \<Rightarrow> string \<Rightarrow> string \<Rightarrow> bool" where
  "stepOk e f tx s s' =
     (case f tx s of
        Inl _ \<Rightarrow> False
      | Inr res \<Rightarrow>
          (case result res of
             Failure _ \<Rightarrow> False
           | Success r \<Rightarrow>
               r_shardAccount r = s' \<and>
               (case shardAccountOfBase64 e s' of Inl _ \<Rightarrow> False | Inr _ \<Rightarrow> True)))"

text \<open>The balance stored in an encoded snapshot, zero if it has none.\<close>

definition snapshotBalance :: "env \<Rightarrow> string \<Rightarrow> int" where
  "snapshotBalance e s = (case shardAccountOfBase64 e s of Inl _ \<Rightarrow> 0 | Inr sa \<Rightarrow> balanceOf sa)"

text \<open>
  A sample environment. Encoded values are strings of the characters 0 and 1, decoded to
  the bits they spell; a snapshot's balance is the number its bits spell, and a decoded
  transaction differs from \<open>sampleTx\<close> in its description and in its state hash, the
  byte its bits spell. The engine appends a 1 to the snapshot it is given.
\<close>

definition bitsOfString :: "string \<Rightarrow> bool list" where
  "bitsOfString s = map (\<lambda>c. c = CHR ''1'') s"

definition sampleShardAccount :: "int \<Rightarrow> accountState \<Rightarrow> shardAccount" where
  "sampleShardAccount b st =
     \<lparr>account = Some \<lparr>addr = sampleAddress,
                       storage = \<lparr>lastTransLt = 0, balance = b, state = st\<rparr>\<rparr>,
      lastTransactionLt = 77, lastTransactionHash = 78\<rparr>"

definition failedDescription :: transactionDescription where
  "failedDescription = Generic (ComputeVm False 9 10 5 7) None"

definition sampleEngine :: "transaction \<Rightarrow> string \<Rightarrow> error + emulationResult" where
  "sampleEngine tx s =
     Inr \<lparr>result =
            (if lt tx < 3
             then Success \<lparr>r_transaction = ''11'', r_shardAccount = s @ ''1'',
                           r_vmLog = ''vm'', r_actions = None\<rparr>
             else Failure ''boom''),
          logs = ''L'', debugLogs = ''D''\<rparr>"

definition txAt :: "int \<Rightarrow> transaction" where
  "txAt n = sampleTx\<lparr>lt := n\<rparr>"

definition libraryCode :: cell where
  "libraryCode = Cell False [True, False, True] []"

definition signatureLog :: "string \<Rightarrow> vmLine list" where
  "signatureLog b =
     [VmStack [OtherElement ''0'', StackCell b], VmOther ''loc'', VmExecute ''CTOS'',
      VmException 9 ''failed to load library cell'', VmExceptionHandler 9, VmOther ''end'']"

definition sampleEnv :: env where
  "sampleEnv =
     \<lparr>findBaseTxByHash =
        (\<lambda>testnet txHash. Inr (Some \<lparr>b_lt = 100, b_hash = [9], b_address = sampleAddress\<rparr>)),
      findRawTxByHash =
        (\<lambda>testnet b. Inr [\<lparr>rt_block = \<lparr>br_workchain = 0, br_shard = ''8000000000000000'',
                                        br_seqno = 7, rootHash = ''R'', fileHash = ''F''\<rparr>,
                            rt_tx = sampleTx\<rparr>]),
      findShardBlockForTx =
        (\<lambda>testnet tx. Inr (Some \<lparr>root_hash = ''R'', masterchain_block_ref_seqno = 5,
                                  rand_seed = ''c2VlZA''\<rparr>)),
      findFullBlockForSeqno = (\<lambda>testnet n. Inr sampleBlock),
      findAllTransactionsBetween = (\<lambda>testnet b minLt. Inr [sampleTx, txAt 1]),
      getBlockConfig = (\<lambda>testnet b. Inr ''cfg''),
      getBlockAccount = (\<lambda>testnet a b. Inr (sampleShardAccount 1 Uninit)),
      getLibraryByHash = (\<lambda>testnet h. Inr libraryCode),
      Blockchain_create = Inr \<lparr>commitHash = ''c0'', commitDate = ''d0''\<rparr>,
      runTransaction =
        (\<lambda>args. Inr \<lparr>result = Success \<lparr>r_transaction = ''11'',
                                          r_shardAccount = a_shardAccount args @ ''1'',
                                          r_vmLog = ''vm'', r_actions = None\<rparr>,
                       logs = ''L'', debugLogs = ''D''\<rparr>),
      addressToString = sampleToString,
      Cell_fromBase64 = (\<lambda>s. Inr (Cell False (bitsOfString s) [])),
      Cell_fromHex = (\<lambda>s. Inr (Cell True (bitsOfString s) [])),
      Buffer_fromBase64 = (\<lambda>s. [115, 101, 101, 100]),
      loadShardAccount = (\<lambda>sl. Inr (sampleShardAccount (int (bitsToNat (s_bits sl))) Uninit)),
      loadTransaction =
        (\<lambda>sl. Inr (sampleTx\<lparr>newHash := [bitsToNat (s_bits sl)],
                              description := failedDescription\<rparr>)),
      loadOutList = (\<lambda>sl. Inr []),
      shardAccountToBase64 = (\<lambda>sa. Inr ''1''),
      transactionToBocHex = (\<lambda>tx. Inr ''b5ee9c72''),
      storeDictDirect = (\<lambda>d. Inr (Cell False [] (map snd d))),
      logs_parse = (\<lambda>s. Inr (signatureLog s))\<rparr>"


definition sampleSuccess :: emulationResultSuccess where
  "sampleSuccess =
     \<lparr>r_transaction = ''11'', r_shardAccount = ''111'', r_vmLog = ''vm'', r_actions = None\<rparr>"

text \<open>The sample environment with a decoder that returns the sample transaction itself.\<close>

definition sampleEnvZero :: env where
  "sampleEnvZero = sampleEnv\<lparr>loadTransaction := (\<lambda>sl. Inr sampleTx)\<rparr>"

text \<open>A bounced internal message whose body has fewer than 32 bits.\<close>

definition bouncedShortTx :: transaction where
  "bouncedShortTx = sampleTx\<lparr>inMessage := Some (internalMessage True 5 emptyCell)\<rparr>"


text \<open>
  A library cell in the sample encoding: the tag 2 and then 256 bits; and the same cell as
  the code of an account.
\<close>

definition sampleLibHex :: string where
  "sampleLibHex = ''00000010'' @ replicate 256 (CHR ''1'')"

definition sampleLibCell :: cell where
  "sampleLibCell = Cell True (bitsOfString sampleLibHex) []"


text \<open>
  A second library cell (the tag 2 and 256 zero bits), its content, an environment whose
  provider tells the two hashes apart, an active account whose code is the first library
  cell, and a transaction whose incoming message carries the second one as the code of its
  \<^verbatim>\<open>StateInit\<close>.
\<close>

definition zeroLibCell :: cell where
  "zeroLibCell = Cell True (bitsOfString (''00000010'' @ replicate 256 (CHR ''0''))) []"

definition otherCode :: cell where
  "otherCode = Cell False [False, True] []"

definition twoLibEnv :: env where
  "twoLibEnv =
     sampleEnv\<lparr>getLibraryByHash :=
       (\<lambda>testnet h. if h = replicate 64 (CHR ''F'') then Inr libraryCode else Inr otherCode)\<rparr>"

definition libraryAccount :: shardAccount where
  "libraryAccount = sampleShardAccount 1 (Active (Some sampleLibCell) None)"

definition deployTx :: transaction where
  "deployTx =
     sampleTx\<lparr>inMessage :=
       Some \<lparr>info = Internal False otherAddress sampleAddress 5,
             init = Some \<lparr>si_code = Some zeroLibCell, si_data = None\<rparr>,
             body = emptyCell\<rparr>\<rparr>"

text \<open>
  The stack-top element of a stack dump does not classify as a library fragment: there is
  no top element, or it is not a cell, or it is a cell that the detection rule rejects.
\<close>

definition stackTopOrdinary :: "env \<Rightarrow> stackElement list \<Rightarrow> bool" where
  "stackTopOrdinary e st =
     (case atFromEnd st 1 of
        Some (StackCell b) \<Rightarrow>
          (case Cell_fromHex e b of Inl _ \<Rightarrow> False | Inr c \<Rightarrow> \<not> isLibraryFragment c)
      | _ \<Rightarrow> True)"


text \<open>
  The handle of the sample transaction, and what the pipeline holds and reports for it in
  the sample environment: the emulated state hash differs from the one on chain, the exit
  code is 9, and the log ends in the missing-library signature with a stack-top cell that
  is not a library fragment.
\<close>

definition sampleBaseTx :: baseTxInfo where
  "sampleBaseTx = \<lparr>b_lt = 100, b_hash = [9], b_address = sampleAddress\<rparr>"

definition sampleReconstruction :: reconstruction where
  "sampleReconstruction =
     \<lparr>rc_ourTx = sampleTx, rc_loadedCode = None, rc_codeCell = None,
      rc_emulatorVersion = \<lparr>commitHash = ''c0'', commitDate = ''d0''\<rparr>,
      rc_prevBalance = 3,
      rc_txRes = \<lparr>result = Success sampleSuccess, logs = ''L'', debugLogs = ''D''\<rparr>\<rparr>"

definition sampleReport :: traceResult where
  "sampleReport =
     \<lparr>stateUpdateHashOk = False, codeCell = None, originalCodeCell = None,
      inMsg = \<lparr>sender = Some otherAddress, contract = sampleAddress,
               amount = Some 5, opcode = None\<rparr>,
      money = \<lparr>balanceBefore = 3, sentTotal = 7, m_totalFees = 2, balanceAfter = 7\<rparr>,
      emulatedTx = \<lparr>raw = ''b5ee9c72'', utime = 1700000000, t_lt = 100,
                    computeInfo = ComputeInfo False 9 10 5 7, executorLogs = ''L'',
                    actions = [], c5 = None, vmLogs = ''vm''\<rparr>,
      emulatorVersion = \<lparr>commitHash = ''c0'', commitDate = ''d0''\<rparr>\<rparr>"


section \<open>Properties\<close>

subsection \<open>Money sent\<close>

lemma addSent_alt: "addSent m acc = (if isInternal m then acc + value_coins (info m) else acc)"
  by (cases "info m") (simp_all add: addSent_def isInternal_def)

lemma fold_addSent:
  "fold addSent ms acc = acc + sum_list (map (\<lambda>m. value_coins (info m)) (filter isInternal ms))"
  by (induction ms arbitrary: acc) (simp_all add: addSent_alt)

lemma sentTotal_sum:
  "calculateSentTotal tx =
     sum_list (map (\<lambda>m. value_coins (info m)) (filter isInternal (dict_values (outMessages tx))))"
  by (simp add: calculateSentTotal_def fold_addSent)

text \<open>
  C9: \<open>sentTotal\<close> is the sum of the values of the outgoing internal messages; an outgoing
  message of another type, wherever it stands among the outgoing messages, does not change
  it; and a transaction left with no outgoing internal message has \<open>sentTotal\<close> zero.
\<close>

theorem calculateSentTotal_internal_sum:
  "calculateSentTotal tx =
     sum_list (map (\<lambda>m. value_coins (info m)) (filter isInternal (dict_values (outMessages tx))))
   \<and> (\<not> isInternal m \<longrightarrow>
        calculateSentTotal (tx\<lparr>outMessages := pre @ (k, m) # post\<rparr>) =
        calculateSentTotal (tx\<lparr>outMessages := pre @ post\<rparr>))
   \<and> calculateSentTotal (tx\<lparr>outMessages := filter (\<lambda>(k, m). \<not> isInternal m) (outMessages tx)\<rparr>) = 0"
proof (intro conjI impI)
  show "calculateSentTotal tx =
     sum_list (map (\<lambda>m. value_coins (info m)) (filter isInternal (dict_values (outMessages tx))))"
    by (rule sentTotal_sum)
next
  assume "\<not> isInternal m"
  then show "calculateSentTotal (tx\<lparr>outMessages := pre @ (k, m) # post\<rparr>) =
        calculateSentTotal (tx\<lparr>outMessages := pre @ post\<rparr>)"
    by (simp add: sentTotal_sum dict_values_def)
next
  show "calculateSentTotal (tx\<lparr>outMessages := filter (\<lambda>(k, m). \<not> isInternal m) (outMessages tx)\<rparr>) = 0"
    by (simp add: sentTotal_sum dict_values_def filter_map o_def case_prod_unfold)
qed

theorem calculateSentTotal_internal_sum_witness:
  "\<not> isInternal externalOutMessage
   \<and> calculateSentTotal sampleTx = 7
   \<and> calculateSentTotal
        (sampleTx\<lparr>outMessages := [(0, internalMessage False 3 emptyCell)] @
                     (1, externalOutMessage) # [(2, internalMessage False 4 emptyCell)]\<rparr>) =
     calculateSentTotal
        (sampleTx\<lparr>outMessages := [(0, internalMessage False 3 emptyCell)] @
                     [(2, internalMessage False 4 emptyCell)]\<rparr>)"
proof -
  have h: "\<not> isInternal externalOutMessage"
    by (simp add: isInternal_def externalOutMessage_def)
  have v: "calculateSentTotal sampleTx = 7"
    using calculateSentTotal_internal_sum [of sampleTx externalOutMessage "[]" 0 "[]"]
    by (simp add: sampleTx_def dict_values_def isInternal_def internalMessage_def
        externalOutMessage_def)
  show ?thesis
    using h v
      calculateSentTotal_internal_sum [of sampleTx externalOutMessage
        "[(0, internalMessage False 3 emptyCell)]" 1 "[(2, internalMessage False 4 emptyCell)]"]
    by simp
qed

subsection \<open>The minimum logical time\<close>

lemma scanTransactions_fold:
  assumes "\<forall>t \<in> set ts. stx_account t = a \<longrightarrow> BigInt (stx_lt t) = Inr (v t)"
  shows "scanTransactions a ts m = Inr (fold min (map v (filter (\<lambda>t. stx_account t = a) ts)) m)"
  using assms
proof (induction ts arbitrary: m)
  case Nil
  show ?case by simp
next
  case (Cons t ts)
  have step: "minLtStep a t m = Inr (if stx_account t = a then min (v t) m else m)"
    using Cons.prems by (auto simp: minLtStep_def min_def)
  show ?case using Cons.prems by (simp add: step Cons.IH)
qed

lemma scanShards_fold:
  assumes "\<forall>t \<in> set (concat (map transactions ss)).
             stx_account t = a \<longrightarrow> BigInt (stx_lt t) = Inr (v t)"
  shows "scanShards a ss m =
           Inr (fold min (map v (filter (\<lambda>t. stx_account t = a) (concat (map transactions ss)))) m)"
  using assms
proof (induction ss arbitrary: m)
  case Nil
  show ?case by simp
next
  case (Cons s ss)
  have h: "\<forall>t \<in> set (transactions s). stx_account t = a \<longrightarrow> BigInt (stx_lt t) = Inr (v t)"
    using Cons.prems by simp
  have r: "\<forall>t \<in> set (concat (map transactions ss)).
             stx_account t = a \<longrightarrow> BigInt (stx_lt t) = Inr (v t)"
    using Cons.prems by simp
  show ?case by (simp add: scanTransactions_fold [OF h] Cons.IH [OF r])
qed

lemma fold_min_Min: "fold min xs (m::int) = Min (insert m (set xs))"
  using Min.set_eq_fold [of m xs] by simp

text \<open>
  C7: when the logical-time strings of the account's entries in the block's shard summaries
  are numerals (\<open>v\<close> gives their values), \<open>computeMinLt\<close> returns the minimum of the target
  transaction's logical time and the logical times of those entries; the result never
  exceeds the target's logical time and equals it when no entry of the account is earlier.
\<close>

theorem computeMinLt_minimum:
  assumes "\<forall>t \<in> set (matchingEntries (toStr address) block). BigInt (stx_lt t) = Inr (v t)"
  shows "\<exists>m. computeMinLt toStr tx address block = Inr m \<and>
             m = Min (insert (lt tx) (v ` set (matchingEntries (toStr address) block))) \<and>
             m \<le> lt tx \<and>
             ((\<forall>t \<in> set (matchingEntries (toStr address) block). lt tx \<le> v t) \<longrightarrow> m = lt tx)"
proof -
  let ?M = "matchingEntries (toStr address) block"
  let ?m = "Min (insert (lt tx) (v ` set ?M))"
  have pre: "\<forall>t \<in> set (concat (map transactions (shards block))).
               stx_account t = toStr address \<longrightarrow> BigInt (stx_lt t) = Inr (v t)"
    using assms by (simp add: matchingEntries_def blockEntries_def)
  have run: "computeMinLt toStr tx address block = Inr ?m"
    by (simp add: computeMinLt_def scanShards_fold [OF pre] fold_min_Min
        matchingEntries_def blockEntries_def)
  have le: "?m \<le> lt tx" by simp
  have eq: "(\<forall>t \<in> set ?M. lt tx \<le> v t) \<longrightarrow> ?m = lt tx"
  proof
    assume a: "\<forall>t \<in> set ?M. lt tx \<le> v t"
    show "?m = lt tx"
      by (rule Min_eqI) (use a in auto)
  qed
  from run le eq show ?thesis by blast
qed

lemma sample_matching:
  "matchingEntries (sampleToString sampleAddress) sampleBlock =
     [\<lparr>stx_lt = ''90'', stx_hash = ''h1'', stx_account = ''EQA''\<rparr>,
      \<lparr>stx_lt = ''120'', stx_hash = ''h3'', stx_account = ''EQA''\<rparr>]"
  by (simp add: matchingEntries_def blockEntries_def sampleBlock_def sampleToString_def
      sampleAddress_def)

lemma BigInt_90: "BigInt ''90'' = Inr 90"
  by code_simp

lemma BigInt_120: "BigInt ''120'' = Inr 120"
  by code_simp

theorem computeMinLt_minimum_witness:
  "matchingEntries (sampleToString sampleAddress) sampleBlock =
     [\<lparr>stx_lt = ''90'', stx_hash = ''h1'', stx_account = ''EQA''\<rparr>,
      \<lparr>stx_lt = ''120'', stx_hash = ''h3'', stx_account = ''EQA''\<rparr>]
   \<and> BigInt ''90'' = Inr 90 \<and> BigInt ''120'' = Inr 120
   \<and> lt sampleTx = 100
   \<and> computeMinLt sampleToString sampleTx sampleAddress sampleBlock = Inr 90"
proof -
  have h: "\<forall>t \<in> set (matchingEntries (sampleToString sampleAddress) sampleBlock).
       BigInt (stx_lt t) = Inr (entryLt t)"
    by (simp add: sample_matching entryLt_def BigInt_90 BigInt_120)
  have lt: "lt sampleTx = 100" by (simp add: sampleTx_def)
  have "computeMinLt sampleToString sampleTx sampleAddress sampleBlock = Inr 90"
    using h computeMinLt_minimum [where toStr = sampleToString and address = sampleAddress
        and block = sampleBlock and v = entryLt and tx = sampleTx]
    by (auto simp add: sample_matching entryLt_def BigInt_90 BigInt_120 lt)
  then show ?thesis
    by (simp add: sample_matching BigInt_90 BigInt_120 lt)
qed

subsection \<open>The state replayer\<close>

lemma stepOk_D:
  assumes "stepOk e f tx s s'"
  obtains res r sa where "f tx s = Inr res" "result res = Success r" "r_shardAccount r = s'"
    "shardAccountOfBase64 e s' = Inr sa"
  using assms by (auto simp: stepOk_def split: sum.splits emulationOutcome.splits)

lemma replayLoop_step_ok:
  assumes "stepOk e f tx s s'"
  shows "replayLoop e (recording f) (tx # txs) b s calls =
           replayLoop e (recording f) txs (snapshotBalance e s') s' (calls @ [(tx, s)])"
proof -
  from assms obtain res r sa where
    "f tx s = Inr res" "result res = Success r" "r_shardAccount r = s'"
    "shardAccountOfBase64 e s' = Inr sa"
    by (rule stepOk_D)
  then show ?thesis
    by (simp add: recording_def snapshotBalance_def)
qed

lemma replayLoop_step_fail:
  assumes "f tx s = Inr res" "result res = Failure err"
  shows "replayLoop e (recording f) (tx # txs) b s calls =
           (Inl (TransactionFailedForLt (lt tx) (logs res) (debugLogs res)), calls @ [(tx, s)])"
  using assms by (simp add: recording_def)

lemma replayLoop_fail_fast:
  assumes "i < length txs" "length ss = Suc i"
    and "\<forall>k<i. stepOk e f (txs ! k) (ss ! k) (ss ! Suc k)"
    and "f (txs ! i) (ss ! i) = Inr res" "result res = Failure err"
  shows "replayLoop e (recording f) txs b (ss ! 0) calls =
           (Inl (TransactionFailedForLt (lt (txs ! i)) (logs res) (debugLogs res)),
            calls @ zip (take (Suc i) txs) ss)"
  using assms
proof (induction i arbitrary: txs ss b calls)
  case 0
  then obtain tx txs' where txs: "txs = tx # txs'" by (cases txs) auto
  from 0 obtain s where ss: "ss = [s]" by (cases ss) auto
  from 0 have fr: "f tx s = Inr res" by (simp add: txs ss)
  have "replayLoop e (recording f) (tx # txs') b s calls =
      (Inl (TransactionFailedForLt (lt tx) (logs res) (debugLogs res)), calls @ [(tx, s)])"
    using fr \<open>result res = Failure err\<close> by (rule replayLoop_step_fail)
  then show ?case by (simp add: txs ss del: replayLoop.simps)
next
  case (Suc i)
  then obtain tx txs' where txs: "txs = tx # txs'" by (cases txs) auto
  from Suc.prems obtain s s' ss' where ss: "ss = s # s' # ss'"
    by (cases ss; cases "tl ss") auto
  have first: "stepOk e f tx s s'"
    using Suc.prems(3) by (auto simp: txs ss dest: spec [of _ 0])
  have rest: "\<forall>k<i. stepOk e f (txs' ! k) ((s' # ss') ! k) ((s' # ss') ! Suc k)"
  proof (intro allI impI)
    fix k assume "k < i"
    then have "Suc k < Suc i" by simp
    with Suc.prems(3) have "stepOk e f (txs ! Suc k) (ss ! Suc k) (ss ! Suc (Suc k))" by blast
    then show "stepOk e f (txs' ! k) ((s' # ss') ! k) ((s' # ss') ! Suc k)"
      by (simp add: txs ss)
  qed
  have ih: "replayLoop e (recording f) txs' (snapshotBalance e s') ((s' # ss') ! 0) (calls @ [(tx, s)]) =
      (Inl (TransactionFailedForLt (lt (txs' ! i)) (logs res) (debugLogs res)),
       (calls @ [(tx, s)]) @ zip (take (Suc i) txs') (s' # ss'))"
    using Suc.prems rest by (intro Suc.IH) (auto simp: txs ss)
  show ?case
    using ih by (simp add: txs ss replayLoop_step_ok [OF first] del: replayLoop.simps)
qed

lemma replayLoop_all_ok:
  assumes "length ss = Suc (length txs)"
    and "\<forall>k<length txs. stepOk e f (txs ! k) (ss ! k) (ss ! Suc k)"
  shows "replayLoop e (recording f) txs b (ss ! 0) calls =
           (Inr (if txs = [] then b else snapshotBalance e (last ss), last ss),
            calls @ zip txs ss)"
  using assms
proof (induction txs arbitrary: ss b calls)
  case Nil
  then obtain s where "ss = [s]" by (cases ss) auto
  then show ?case by simp
next
  case (Cons tx txs')
  from Cons.prems obtain s s' ss' where ss: "ss = s # s' # ss'"
    by (cases ss; cases "tl ss") auto
  have first: "stepOk e f tx s s'"
    using Cons.prems(2) by (auto simp: ss dest: spec [of _ 0])
  have rest: "\<forall>k<length txs'. stepOk e f (txs' ! k) ((s' # ss') ! k) ((s' # ss') ! Suc k)"
  proof (intro allI impI)
    fix k assume "k < length txs'"
    then have "Suc k < length (tx # txs')" by simp
    with Cons.prems(2) have "stepOk e f ((tx # txs') ! Suc k) (ss ! Suc k) (ss ! Suc (Suc k))"
      by blast
    then show "stepOk e f (txs' ! k) ((s' # ss') ! k) ((s' # ss') ! Suc k)"
      by (simp add: ss)
  qed
  have len: "length (s' # ss') = Suc (length txs')" using Cons.prems(1) by (simp add: ss)
  have ih: "replayLoop e (recording f) txs' (snapshotBalance e s') ((s' # ss') ! 0) (calls @ [(tx, s)]) =
      (Inr (if txs' = [] then snapshotBalance e s' else snapshotBalance e (last (s' # ss')),
            last (s' # ss')),
       (calls @ [(tx, s)]) @ zip txs' (s' # ss'))"
    by (rule Cons.IH [OF len rest])
  have lastsame: "txs' = [] \<Longrightarrow> ss' = []" using len by simp
  show ?case
    using ih lastsame by (auto simp add: ss replayLoop_step_ok [OF first] simp del: replayLoop.simps)
qed


text \<open>
  C5: replaying an empty sequence of preceding transactions returns the starting balance
  and the starting snapshot unchanged and leaves the world as it was, whatever the engine;
  with a recording engine, the record of invocations stays empty.
\<close>

theorem emulatePreviousTransactions_empty:
  "emulatePreviousTransactions e prevBalance [] engine shardAccountBase64 w =
     (Inr (prevBalance, shardAccountBase64), w)
   \<and> snd (emulatePreviousTransactions e prevBalance [] (recording f) shardAccountBase64 []) = []"
  by (simp add: emulatePreviousTransactions_def)

text \<open>
  C6: on a non-empty sequence the replayer invokes the engine on the transactions in
  order, each time with the snapshot the previous successful step returned (\<open>ss\<close> lists
  the snapshots fed). If the invocation for transaction \<open>i\<close> reports non-success after
  \<open>i\<close> successful steps, the replayer raises the error that carries that transaction's
  logical time and both log streams, and the engine has been invoked exactly \<open>i + 1\<close>
  times. If all steps succeed, the returned snapshot is the last one and the returned
  balance is the one read from it, whatever the starting balance was.
\<close>

theorem emulatePreviousTransactions_fail_fast:
  "(i < length txs \<and> length ss = Suc i \<and>
    (\<forall>k<i. stepOk e f (txs ! k) (ss ! k) (ss ! Suc k)) \<and>
    f (txs ! i) (ss ! i) = Inr res \<and> result res = Failure err
    \<longrightarrow> emulatePreviousTransactions e b txs (recording f) (ss ! 0) [] =
          (Inl (TransactionFailedForLt (lt (txs ! i)) (logs res) (debugLogs res)),
           zip (take (Suc i) txs) ss))
   \<and> (txs \<noteq> [] \<and> length ss = Suc (length txs) \<and>
       (\<forall>k<length txs. stepOk e f (txs ! k) (ss ! k) (ss ! Suc k))
    \<longrightarrow> emulatePreviousTransactions e b txs (recording f) (ss ! 0) [] =
          (Inr (snapshotBalance e (last ss), last ss), zip txs ss))"
proof (intro conjI impI)
  assume a: "i < length txs \<and> length ss = Suc i \<and>
    (\<forall>k<i. stepOk e f (txs ! k) (ss ! k) (ss ! Suc k)) \<and>
    f (txs ! i) (ss ! i) = Inr res \<and> result res = Failure err"
  then have ne: "length txs \<noteq> 0" by auto
  from a have "replayLoop e (recording f) txs b (ss ! 0) [] =
      (Inl (TransactionFailedForLt (lt (txs ! i)) (logs res) (debugLogs res)),
       [] @ zip (take (Suc i) txs) ss)"
    by (intro replayLoop_fail_fast) auto
  with ne show "emulatePreviousTransactions e b txs (recording f) (ss ! 0) [] =
          (Inl (TransactionFailedForLt (lt (txs ! i)) (logs res) (debugLogs res)),
           zip (take (Suc i) txs) ss)"
    by (simp add: emulatePreviousTransactions_def)
next
  assume a: "txs \<noteq> [] \<and> length ss = Suc (length txs) \<and>
       (\<forall>k<length txs. stepOk e f (txs ! k) (ss ! k) (ss ! Suc k))"
  then have "replayLoop e (recording f) txs b (ss ! 0) [] =
           (Inr (if txs = [] then b else snapshotBalance e (last ss), last ss),
            [] @ zip txs ss)"
    by (intro replayLoop_all_ok) auto
  with a show "emulatePreviousTransactions e b txs (recording f) (ss ! 0) [] =
          (Inr (snapshotBalance e (last ss), last ss), zip txs ss)"
    by (simp add: emulatePreviousTransactions_def)
qed

lemma sample_stepOk:
  "lt tx < 3 \<Longrightarrow> stepOk sampleEnv sampleEngine tx s (s @ ''1'')"
  by (simp add: stepOk_def sampleEngine_def shardAccountOfBase64_def sampleEnv_def asSlice_def
      beginParse_def)

lemma sample_balance: "snapshotBalance sampleEnv ''111'' = 7"
  by (simp add: snapshotBalance_def shardAccountOfBase64_def sampleEnv_def asSlice_def
      beginParse_def bitsOfString_def bitsToNat_def balanceOf_def sampleShardAccount_def)

lemma lt_txAt: "lt (txAt n) = n"
  by (simp add: txAt_def)

lemma all_less_2: "(\<forall>k<2. P k) \<longleftrightarrow> P 0 \<and> P (Suc 0)"
  by (auto simp: less_Suc_eq numeral_2_eq_2)

lemma all_less_Suc_Suc_0: "(\<forall>k<Suc (Suc 0). P k) \<longleftrightarrow> P 0 \<and> P (Suc 0)"
  by (auto simp: less_Suc_eq)

theorem emulatePreviousTransactions_fail_fast_witness:
  "emulatePreviousTransactions sampleEnv 0 [txAt 1, txAt 2, txAt 3, txAt 4]
     (recording sampleEngine) ''1'' [] =
     (Inl (TransactionFailedForLt 3 ''L'' ''D''),
      [(txAt 1, ''1''), (txAt 2, ''11''), (txAt 3, ''111'')])
   \<and> emulatePreviousTransactions sampleEnv 0 [txAt 1, txAt 2] (recording sampleEngine) ''1'' [] =
     (Inr (7, ''111''), [(txAt 1, ''1''), (txAt 2, ''11'')])"
proof -
  let ?res = "\<lparr>result = Failure ''boom'', logs = ''L'', debugLogs = ''D''\<rparr>"
  have s1: "stepOk sampleEnv sampleEngine (txAt 1) ''1'' ''11''"
    using sample_stepOk [of "txAt 1" "''1''"] by (simp add: lt_txAt)
  have s2: "stepOk sampleEnv sampleEngine (txAt 2) ''11'' ''111''"
    using sample_stepOk [of "txAt 2" "''11''"] by (simp add: lt_txAt)
  have f3: "sampleEngine (txAt 3) ''111'' = Inr ?res"
    by (simp add: sampleEngine_def lt_txAt)
  have A: "emulatePreviousTransactions sampleEnv 0 [txAt 1, txAt 2, txAt 3, txAt 4]
     (recording sampleEngine) ''1'' [] =
     (Inl (TransactionFailedForLt 3 ''L'' ''D''),
      [(txAt 1, ''1''), (txAt 2, ''11''), (txAt 3, ''111'')])"
    using emulatePreviousTransactions_fail_fast [of 2 "[txAt 1, txAt 2, txAt 3, txAt 4]"
        "[''1'', ''11'', ''111'']" sampleEnv sampleEngine ?res "''boom''" 0] s1 s2 f3
    by (simp add: all_less_2 lt_txAt)
  have B: "emulatePreviousTransactions sampleEnv 0 [txAt 1, txAt 2] (recording sampleEngine) ''1'' [] =
     (Inr (7, ''111''), [(txAt 1, ''1''), (txAt 2, ''11'')])"
    using emulatePreviousTransactions_fail_fast [of 0 "[txAt 1, txAt 2]"
        "[''1'', ''11'', ''111'']" sampleEnv sampleEngine ?res "''boom''" 0] s1 s2
    by (simp add: all_less_Suc_Suc_0 sample_balance)
  from A B show ?thesis by simp
qed


subsection \<open>The final data\<close>

lemma computeFinalData_InrD:
  assumes "computeFinalData e res b = Inr fd"
  obtains sa emulatedTx inMsg snd' contract' cp ap where
    "shardAccountOfBase64 e (r_shardAccount res) = Inr sa"
    "transactionOfBase64 e (r_transaction res) = Inr emulatedTx"
    "inMessage emulatedTx = Some inMsg"
    "srcOf (info inMsg) = Inr snd'"
    "destOf (info inMsg) = Inr contract'"
    "description emulatedTx = Generic cp ap"
    "fd = \<lparr>fd_sender = snd', fd_contract = contract',
           fd_money = \<lparr>balanceBefore = b, sentTotal = calculateSentTotal emulatedTx,
                        m_totalFees = totalFees emulatedTx, balanceAfter = balanceOf sa\<rparr>,
           fd_emulatedTx = emulatedTx, fd_amount = amountOf (info inMsg),
           fd_computeInfo = computeInfoOf cp ap\<rparr>"
  using assms unfolding computeFinalData_def
  by (auto split: sum.splits option.splits transactionDescription.splits)

text \<open>
  C8: when \<open>computeFinalData\<close> returns, the emulated transaction is generic; its
  compute-phase summary is \<open>Skipped\<close> exactly when the compute phase was skipped, and
  otherwise a record with the phase's success flag, steps, gas and fees whose exit code is
  the compute exit code when that is not zero, the action phase's result code when the
  compute exit code is zero and there is an action phase, and zero when the compute exit
  code is zero and there is none.
\<close>

theorem computeFinalData_computeInfo:
  assumes "computeFinalData e res b = Inr fd"
  shows "\<exists>cp ap.
           transactionOfBase64 e (r_transaction res) = Inr (fd_emulatedTx fd) \<and>
           description (fd_emulatedTx fd) = Generic cp ap \<and>
           (fd_computeInfo fd = Skipped \<longleftrightarrow> cp = ComputeSkipped) \<and>
           (\<forall>ok ec steps used fees. cp = ComputeVm ok ec steps used fees \<longrightarrow>
              (\<exists>x. fd_computeInfo fd = ComputeInfo ok x steps used fees \<and>
                   (ec \<noteq> 0 \<longrightarrow> x = ec) \<and>
                   (ec = 0 \<longrightarrow> (\<forall>a. ap = Some a \<longrightarrow> x = resultCode a)) \<and>
                   (ec = 0 \<longrightarrow> ap = None \<longrightarrow> x = 0)))"
proof -
  from assms obtain sa emulatedTx inMsg snd' contract' cp ap where
    "shardAccountOfBase64 e (r_shardAccount res) = Inr sa"
    and tx: "transactionOfBase64 e (r_transaction res) = Inr emulatedTx"
    and "inMessage emulatedTx = Some inMsg"
    and "srcOf (info inMsg) = Inr snd'"
    and "destOf (info inMsg) = Inr contract'"
    and d: "description emulatedTx = Generic cp ap"
    and fd: "fd = \<lparr>fd_sender = snd', fd_contract = contract',
           fd_money = \<lparr>balanceBefore = b, sentTotal = calculateSentTotal emulatedTx,
                        m_totalFees = totalFees emulatedTx, balanceAfter = balanceOf sa\<rparr>,
           fd_emulatedTx = emulatedTx, fd_amount = amountOf (info inMsg),
           fd_computeInfo = computeInfoOf cp ap\<rparr>"
    by (rule computeFinalData_InrD)
  have e1: "fd_emulatedTx fd = emulatedTx" and e2: "fd_computeInfo fd = computeInfoOf cp ap"
    by (simp_all add: fd)
  have sk: "computeInfoOf cp ap = Skipped \<longleftrightarrow> cp = ComputeSkipped"
    by (cases cp) (simp_all add: computeInfoOf_def)
  have vm: "\<forall>ok ec steps used fees. cp = ComputeVm ok ec steps used fees \<longrightarrow>
              (\<exists>x. computeInfoOf cp ap = ComputeInfo ok x steps used fees \<and>
                   (ec \<noteq> 0 \<longrightarrow> x = ec) \<and>
                   (ec = 0 \<longrightarrow> (\<forall>a. ap = Some a \<longrightarrow> x = resultCode a)) \<and>
                   (ec = 0 \<longrightarrow> ap = None \<longrightarrow> x = 0))"
    by (auto simp: computeInfoOf_def)
  show ?thesis
    unfolding e1 e2 using tx d sk vm by blast
qed

lemma sample_decode_tx:
  "transactionOfBase64 sampleEnv ''11'' =
     Inr (sampleTx\<lparr>newHash := [3], description := failedDescription\<rparr>)"
  by (simp add: transactionOfBase64_def sampleEnv_def asSlice_def beginParse_def
      bitsOfString_def bitsToNat_def)

lemma sample_decode_account:
  "shardAccountOfBase64 sampleEnv ''111'' = Inr (sampleShardAccount 7 Uninit)"
  by (simp add: shardAccountOfBase64_def sampleEnv_def asSlice_def beginParse_def
      bitsOfString_def bitsToNat_def)

lemma sample_finalData:
  "computeFinalData sampleEnv sampleSuccess 3 =
     Inr \<lparr>fd_sender = Some otherAddress, fd_contract = sampleAddress,
          fd_money = \<lparr>balanceBefore = 3, sentTotal = 7, m_totalFees = 2, balanceAfter = 7\<rparr>,
          fd_emulatedTx = sampleTx\<lparr>newHash := [3], description := failedDescription\<rparr>,
          fd_amount = Some 5,
          fd_computeInfo = ComputeInfo False 9 10 5 7\<rparr>"
  by (simp add: computeFinalData_def sampleSuccess_def sample_decode_tx sample_decode_account)
     (simp add: sampleTx_def internalMessage_def srcOf_def destOf_def amountOf_def
      failedDescription_def computeInfoOf_def balanceOf_def sampleShardAccount_def
      calculateSentTotal_def dict_values_def addSent_def externalOutMessage_def)

lemma sample_finalData_zero:
  "computeFinalData sampleEnvZero sampleSuccess 3 =
     Inr \<lparr>fd_sender = Some otherAddress, fd_contract = sampleAddress,
          fd_money = \<lparr>balanceBefore = 3, sentTotal = 7, m_totalFees = 2, balanceAfter = 7\<rparr>,
          fd_emulatedTx = sampleTx,
          fd_amount = Some 5,
          fd_computeInfo = ComputeInfo True 37 10 5 7\<rparr>"
  by (simp add: computeFinalData_def sampleSuccess_def shardAccountOfBase64_def
        transactionOfBase64_def sampleEnvZero_def sampleEnv_def asSlice_def beginParse_def
        bitsOfString_def bitsToNat_def)
     (simp add: sampleTx_def internalMessage_def srcOf_def destOf_def amountOf_def
      sampleDescription_def computeInfoOf_def balanceOf_def sampleShardAccount_def
      calculateSentTotal_def dict_values_def addSent_def externalOutMessage_def)

theorem computeFinalData_computeInfo_witness:
  "computeFinalData sampleEnv sampleSuccess 3 =
     Inr \<lparr>fd_sender = Some otherAddress, fd_contract = sampleAddress,
          fd_money = \<lparr>balanceBefore = 3, sentTotal = 7, m_totalFees = 2, balanceAfter = 7\<rparr>,
          fd_emulatedTx = sampleTx\<lparr>newHash := [3], description := failedDescription\<rparr>,
          fd_amount = Some 5,
          fd_computeInfo = ComputeInfo False 9 10 5 7\<rparr>
   \<and> failedDescription = Generic (ComputeVm False 9 10 5 7) None
   \<and> computeFinalData sampleEnvZero sampleSuccess 3 =
     Inr \<lparr>fd_sender = Some otherAddress, fd_contract = sampleAddress,
          fd_money = \<lparr>balanceBefore = 3, sentTotal = 7, m_totalFees = 2, balanceAfter = 7\<rparr>,
          fd_emulatedTx = sampleTx,
          fd_amount = Some 5,
          fd_computeInfo = ComputeInfo True 37 10 5 7\<rparr>
   \<and> description sampleTx =
       Generic (ComputeVm True 0 10 5 7) (Some \<lparr>ap_success = False, resultCode = 37\<rparr>)"
  using computeFinalData_computeInfo [OF sample_finalData]
    computeFinalData_computeInfo [OF sample_finalData_zero]
  by (simp add: sample_finalData sample_finalData_zero failedDescription_def sampleTx_def
      sampleDescription_def)

subsection \<open>The opcode\<close>

lemma txOpcode_no_message: "inMessage tx = None \<Longrightarrow> txOpcode tx = Inr None"
  by (simp add: txOpcode_def)

lemma txOpcode_not_bounced:
  assumes "inMessage tx = Some m" "\<not> isExotic (body m)" "\<not> isBounced (Some m)"
  shows "txOpcode tx =
           Inr (if 32 \<le> length (bits (body m)) then Some (bitsToNat (take 32 (bits (body m))))
                else None)"
  using assms
  by (simp add: txOpcode_def asSlice_def beginParse_def remainingBits_def loadUint_def)

lemma txOpcode_bounced:
  assumes "inMessage tx = Some m" "\<not> isExotic (body m)" "isBounced (Some m)"
    and "32 \<le> length (bits (body m))"
  shows "txOpcode tx =
           Inr (if 64 \<le> length (bits (body m))
                then Some (bitsToNat (take 32 (drop 32 (bits (body m))))) else None)"
  using assms
  by (auto simp add: txOpcode_def asSlice_def beginParse_def remainingBits_def loadUint_def)

lemma txOpcode_bounced_short:
  assumes "inMessage tx = Some m" "\<not> isExotic (body m)" "isBounced (Some m)"
    and "length (bits (body m)) < 32"
  shows "txOpcode tx = Inl RangeError"
  using assms
  by (simp add: txOpcode_def asSlice_def beginParse_def remainingBits_def loadUint_def)

text \<open>
  C10: for a bounced internal message whose body has fewer than 32 bits, skipping the
  first 32 bits reads past the end of the slice: \<open>txOpcode\<close> raises instead of
  returning an undefined opcode. (The lemmas above give the opcode in the other cases.)
\<close>

theorem txOpcode_bounced_short_body_raises:
  "txOpcode bouncedShortTx = Inl RangeError"
  by (simp add: txOpcode_def bouncedShortTx_def internalMessage_def emptyCell_def isBounced_def
      asSlice_def beginParse_def loadUint_def)



subsection \<open>Library detection\<close>

lemma fold_bits_acc:
  "fold (\<lambda>b acc. 2 * acc + (if b then 1 else 0)) bs (a::nat) =
     a * 2 ^ length bs + fold (\<lambda>b acc. 2 * acc + (if b then 1 else 0)) bs 0"
proof -
  define F :: "bool \<Rightarrow> nat \<Rightarrow> nat" where "F = (\<lambda>b acc. 2 * acc + (if b then 1 else 0))"
  have "fold F bs a = a * 2 ^ length bs + fold F bs 0"
  proof (induction bs arbitrary: a)
    case Nil
    show ?case by simp
  next
    case (Cons b bs)
    define x :: nat where "x = (if b then 1 else 0)"
    have "fold F (b # bs) a = fold F bs (2 * a + x)"
      by (simp add: F_def x_def)
    also have "\<dots> = (2 * a + x) * 2 ^ length bs + fold F bs 0"
      by (rule Cons.IH)
    finally have l: "fold F (b # bs) a = (2 * a + x) * 2 ^ length bs + fold F bs 0" .
    have "fold F (b # bs) 0 = fold F bs x"
      by (simp add: F_def x_def)
    also have "\<dots> = x * 2 ^ length bs + fold F bs 0"
      by (rule Cons.IH)
    finally have r: "fold F (b # bs) 0 = x * 2 ^ length bs + fold F bs 0" .
    show ?case
      unfolding l r by (simp add: algebra_simps)
  qed
  then show ?thesis by (simp add: F_def)
qed

lemma bitsToNat_append:
  "bitsToNat (xs @ ys) = bitsToNat xs * 2 ^ length ys + bitsToNat ys"
  unfolding bitsToNat_def by (simp add: fold_bits_acc [of ys "fold _ xs 0"])

lemma bitsToNat_less: "bitsToNat bs < 2 ^ length bs"
proof (induction bs rule: rev_induct)
  case Nil
  show ?case by (simp add: bitsToNat_def)
next
  case (snoc b bs)
  have "bitsToNat [b] \<le> 1" by (simp add: bitsToNat_def)
  with snoc show ?case by (simp add: bitsToNat_append)
qed

lemma hex_digit_roundtrip: "d < 16 \<Longrightarrow> digitOf (upperChar (hexDigit d)) = Some d"
  by (auto simp: digitOf_def upperChar_def hexDigit_def Let_def)

lemma hex_digit_not_space: "d < 16 \<Longrightarrow> \<not> isWhiteSpace (upperChar (hexDigit d))"
  by (auto simp: isWhiteSpace_def upperChar_def hexDigit_def Let_def)


lemma parseDigits_byte:
  assumes "b < 256"
  shows "parseDigits 16 (upperChar (hexDigit (b div 16)) # upperChar (hexDigit (b mod 16)) # cs) acc =
           parseDigits 16 cs (acc * 256 + b)"
proof -
  have hi: "b div 16 < 16" using assms by arith
  have lo: "b mod 16 < 16" by simp
  have v: "(acc * 16 + b div 16) * 16 + b mod 16 = acc * 256 + b" by arith
  have "parseDigits 16 (upperChar (hexDigit (b div 16)) # upperChar (hexDigit (b mod 16)) # cs) acc =
          parseDigits 16 cs ((acc * 16 + b div 16) * 16 + b mod 16)"
    by (simp add: hex_digit_roundtrip [OF hi] hex_digit_roundtrip [OF lo] hi)
  then show ?thesis by (simp only: v)
qed

lemma parseDigits_toHex:
  assumes "\<forall>b \<in> set bs. b < 256"
  shows "parseDigits 16 (toUpperCase (toHex bs)) acc = Some (fold (\<lambda>b a. a * 256 + b) bs acc)"
  using assms
proof (induction bs arbitrary: acc)
  case Nil
  show ?case by (simp add: toHex_def toUpperCase_def)
next
  case (Cons b bs)
  have b: "b < 256" using Cons.prems by simp
  have "toUpperCase (toHex (b # bs)) =
          upperChar (hexDigit (b div 16)) # upperChar (hexDigit (b mod 16)) # toUpperCase (toHex bs)"
    by (simp add: toHex_def toUpperCase_def)
  then show ?case
    using Cons.prems by (simp add: parseDigits_byte [OF b] Cons.IH del: parseDigits.simps)
qed

lemma bytesOf_less: "\<forall>b \<in> set (bytesOf n bs). b < 256"
proof (induction n arbitrary: bs)
  case 0
  show ?case by simp
next
  case (Suc n)
  have "bitsToNat (take 8 bs) < 2 ^ length (take 8 bs)" by (rule bitsToNat_less)
  also have "\<dots> \<le> 2 ^ 8" by (rule power_increasing) simp_all
  finally have "bitsToNat (take 8 bs) < 256" by simp
  with Suc show ?case by simp
qed

lemma fold_bytesOf:
  assumes "8 * n \<le> length bs"
  shows "fold (\<lambda>b a. a * 256 + b) (bytesOf n bs) acc =
           acc * 2 ^ (8 * n) + bitsToNat (take (8 * n) bs)"
proof -
  define G :: "nat \<Rightarrow> nat \<Rightarrow> nat" where "G = (\<lambda>b a. a * 256 + b)"
  have "fold G (bytesOf n bs) acc = acc * 2 ^ (8 * n) + bitsToNat (take (8 * n) bs)"
    using assms
  proof (induction n arbitrary: bs acc)
    case 0
    show ?case by (simp add: bitsToNat_def)
  next
    case (Suc n)
    have len: "8 * n \<le> length (drop 8 bs)" using Suc.prems by simp
    have split: "take (8 * Suc n) bs = take 8 bs @ take (8 * n) (drop 8 bs)"
      by (simp add: take_add [symmetric] add.commute)
    have l8: "length (take (8 * n) (drop 8 bs)) = 8 * n" using len by simp
    have "fold G (bytesOf (Suc n) bs) acc = fold G (bytesOf n (drop 8 bs)) (acc * 256 + bitsToNat (take 8 bs))"
      by (simp add: G_def)
    also have "\<dots> = (acc * 256 + bitsToNat (take 8 bs)) * 2 ^ (8 * n) +
                     bitsToNat (take (8 * n) (drop 8 bs))"
      by (rule Suc.IH [OF len])
    also have "\<dots> = acc * 2 ^ (8 * Suc n) + bitsToNat (take (8 * Suc n) bs)"
      unfolding split bitsToNat_append l8 by (simp add: algebra_simps power_add)
    finally show ?case .
  qed
  then show ?thesis by (simp add: G_def)
qed

lemma hex_chars_not_space:
  assumes "\<forall>b \<in> set bs. b < 256"
  shows "\<forall>c \<in> set (toUpperCase (toHex bs)). \<not> isWhiteSpace c"
  using assms
proof (induction bs)
  case Nil
  show ?case by (simp add: toHex_def toUpperCase_def)
next
  case (Cons b bs)
  have "b < 256" using Cons.prems by simp
  then have hi: "b div 16 < 16" by arith
  have lo: "b mod 16 < 16" by simp
  have "toUpperCase (toHex (b # bs)) =
          upperChar (hexDigit (b div 16)) # upperChar (hexDigit (b mod 16)) # toUpperCase (toHex bs)"
    by (simp add: toHex_def toUpperCase_def)
  then show ?case
    using Cons hex_digit_not_space [OF hi] hex_digit_not_space [OF lo] by simp
qed

lemma dropWhile_none: "\<forall>x \<in> set xs. \<not> P x \<Longrightarrow> dropWhile P xs = xs"
  by (cases xs) simp_all

lemma trim_no_space:
  assumes "\<forall>c \<in> set s. \<not> isWhiteSpace c"
  shows "trim s = s"
proof -
  have "dropWhile isWhiteSpace s = s"
    using assms by (rule dropWhile_none)
  moreover have "dropWhile isWhiteSpace (rev s) = rev s"
    using assms by (intro dropWhile_none) simp
  ultimately show ?thesis by (simp add: trim_def)
qed

lemma BigInt_hex:
  assumes "0 < n" "8 * n \<le> length bs"
  shows "BigInt (''0x'' @ toUpperCase (toHex (bytesOf n bs))) = Inr (int (bitsToNat (take (8 * n) bs)))"
proof -
  let ?hex = "toUpperCase (toHex (bytesOf n bs))"
  have ns: "\<forall>c \<in> set (''0x'' @ ?hex). \<not> isWhiteSpace c"
    using hex_chars_not_space [OF bytesOf_less, of n bs] by (simp add: isWhiteSpace_def)
  have ne: "?hex \<noteq> []"
    using assms(1) by (cases n) (simp_all add: toHex_def toUpperCase_def)
  have p: "parseNat 16 ?hex = Inr (int (bitsToNat (take (8 * n) bs)))"
    using ne by (simp add: parseNat_def parseDigits_toHex [OF bytesOf_less] fold_bytesOf [OF assms(2)])
  have "BigInt (''0x'' @ ?hex) = parseNat 16 ?hex"
    unfolding BigInt_def trim_no_space [OF ns] by (simp add: Let_def)
  with p show ?thesis by simp
qed


lemma fragment_parse:
  assumes "length (bits c) = 264"
  shows "beginParse True c = Inr \<lparr>s_bits = bits c, s_refs = refs c\<rparr>"
    and "loadUint 8 \<lparr>s_bits = bits c, s_refs = refs c\<rparr> =
           Inr (bitsToNat (take 8 (bits c)), \<lparr>s_bits = drop 8 (bits c), s_refs = refs c\<rparr>)"
    and "loadBuffer 32 \<lparr>s_bits = drop 8 (bits c), s_refs = refs c\<rparr> =
           Inr (bytesOf 32 (drop 8 (bits c)), \<lparr>s_bits = drop 256 (drop 8 (bits c)), s_refs = refs c\<rparr>)"
  using assms by (simp_all add: beginParse_def loadUint_def loadBuffer_def)

lemma fragment_hash_BigInt:
  assumes "isLibraryFragment c"
  shows "BigInt (''0x'' @ fragmentHashHex c) = Inr (int (fragmentHash c))"
proof -
  have "8 * 32 \<le> length (drop 8 (bits c))"
    using assms by (simp add: isLibraryFragment_def)
  from BigInt_hex [OF _ this] show ?thesis
    by (simp add: fragmentHashHex_def fragmentHash_def)
qed

lemma tryLoadAsLibrary_rule:
  assumes "Cell_fromHex e h = Inr c"
  shows "tryLoadAsLibrary e h testnet =
           (if isLibraryFragment c
            then (case getLibraryByHash e testnet (fragmentHashHex c) of
                    Inl err \<Rightarrow> Inl err
                  | Inr actualCode \<Rightarrow> Inr (Some (fragmentHashHex c, actualCode)))
            else Inr None)"
proof (cases "length (bits c) = 264")
  case True
  show ?thesis
    by (simp add: tryLoadAsLibrary_def assms True fragment_parse [OF True]
        isLibraryFragment_def EXOTIC_LIBRARY_TAG_def fragmentHashHex_def Let_def
        split: sum.split)
next
  case False
  then show ?thesis
    by (simp add: tryLoadAsLibrary_def assms isLibraryFragment_def)
qed

lemma addMaybeExoticLibrary_rule:
  "addMaybeExoticLibrary e testnet ls (Some c) =
     (if isLibraryFragment c
      then (case getLibraryByHash e testnet (fragmentHashHex c) of
              Inl err \<Rightarrow> Inl err
            | Inr actualCode \<Rightarrow>
                Inr (Some actualCode, AList.update (int (fragmentHash c)) actualCode ls))
      else Inr (None, ls))"
proof (cases "length (bits c) = 264")
  case True
  show ?thesis
  proof (cases "bitsToNat (take 8 (bits c)) = 2")
    case two: True
    have frag: "isLibraryFragment c" by (simp add: isLibraryFragment_def True two)
    have k: "BigInt (CHR ''0'' # CHR ''x'' # toUpperCase (toHex (bytesOf 32 (drop 8 (bits c))))) =
               Inr (int (fragmentHash c))"
      using fragment_hash_BigInt [OF frag] by (simp add: fragmentHashHex_def)
    show ?thesis
      by (simp add: addMaybeExoticLibrary_def True fragment_parse [OF True] two frag
          EXOTIC_LIBRARY_TAG_def fragmentHashHex_def k Let_def split: sum.split)
  next
    case False
    then show ?thesis
      by (simp add: addMaybeExoticLibrary_def True fragment_parse [OF True]
          isLibraryFragment_def EXOTIC_LIBRARY_TAG_def)
  qed
next
  case False
  then show ?thesis
    by (simp add: addMaybeExoticLibrary_def isLibraryFragment_def)
qed

text \<open>
  C1: a cell is classified as a library fragment exactly when it has 264 bits and its first
  eight bits, read with exotic cells allowed, are the tag 2; the hash of a fragment is the
  number spelled by the following 256 bits, which is the key \<^verbatim>\<open>BigInt("0x" + hex)\<close>
  of the hexadecimal string passed to the provider. Any other cell is ordinary code: no
  provider is asked and nothing is added. \<open>tryLoadAsLibrary\<close> of the retry controller
  and \<open>addMaybeExoticLibrary\<close> of the scanner decide by the same rule.
\<close>

theorem library_detection_rule:
  "(Cell_fromHex e h = Inr c \<longrightarrow>
      tryLoadAsLibrary e h testnet =
        (if isLibraryFragment c
         then (case getLibraryByHash e testnet (fragmentHashHex c) of
                 Inl err \<Rightarrow> Inl err
               | Inr actualCode \<Rightarrow> Inr (Some (fragmentHashHex c, actualCode)))
         else Inr None))
   \<and> addMaybeExoticLibrary e testnet ls (Some c) =
        (if isLibraryFragment c
         then (case getLibraryByHash e testnet (fragmentHashHex c) of
                 Inl err \<Rightarrow> Inl err
               | Inr actualCode \<Rightarrow>
                   Inr (Some actualCode, AList.update (int (fragmentHash c)) actualCode ls))
         else Inr (None, ls))
   \<and> (isLibraryFragment c \<longrightarrow> BigInt (''0x'' @ fragmentHashHex c) = Inr (int (fragmentHash c)))"
  using tryLoadAsLibrary_rule [of e h c testnet] addMaybeExoticLibrary_rule [of e testnet ls c]
    fragment_hash_BigInt [of c]
  by blast

lemma sample_lib_fragment: "isLibraryFragment sampleLibCell"
  by (simp add: isLibraryFragment_def sampleLibCell_def sampleLibHex_def bitsOfString_def
      bitsToNat_def)

lemma empty_not_fragment: "\<not> isLibraryFragment emptyCell"
  by (simp add: isLibraryFragment_def emptyCell_def)

theorem library_detection_rule_witness:
  "Cell_fromHex sampleEnv sampleLibHex = Inr sampleLibCell
   \<and> isLibraryFragment sampleLibCell
   \<and> tryLoadAsLibrary sampleEnv sampleLibHex False =
       Inr (Some (fragmentHashHex sampleLibCell, libraryCode))
   \<and> addMaybeExoticLibrary sampleEnv False [] (Some sampleLibCell) =
       Inr (Some libraryCode, [(int (fragmentHash sampleLibCell), libraryCode)])
   \<and> BigInt (''0x'' @ fragmentHashHex sampleLibCell) = Inr (int (fragmentHash sampleLibCell))
   \<and> \<not> isLibraryFragment emptyCell
   \<and> addMaybeExoticLibrary sampleEnv False [] (Some emptyCell) = Inr (None, [])"
proof -
  have h: "Cell_fromHex sampleEnv sampleLibHex = Inr sampleLibCell"
    by (simp add: sampleEnv_def sampleLibCell_def)
  have g: "getLibraryByHash sampleEnv False x = Inr libraryCode" for x
    by (simp add: sampleEnv_def)
  show ?thesis
    using h sample_lib_fragment empty_not_fragment
      library_detection_rule [of sampleEnv sampleLibHex sampleLibCell False "[]"]
      library_detection_rule [of sampleEnv sampleLibHex emptyCell False "[]"]
    by (simp add: g)
qed



subsection \<open>The library scanner\<close>

lemma scanCodes_self_fragment:
  assumes "stateOf acc = Some (Active (Some c) d)" "isLibraryFragment c"
    and "getLibraryByHash e testnet (fragmentHashHex c) = Inr actualCode"
  shows "scanCodes e testnet acc tx additionalLibs =
           Inr (Some actualCode,
                fold (\<lambda>(h, lib) d. AList.update h lib d) additionalLibs
                  [(int (fragmentHash c), actualCode)])"
  using assms
  by (simp add: scanCodes_def addMaybeExoticLibrary_rule split: option.split)

lemma addMaybeExoticLibrary_None: "addMaybeExoticLibrary e testnet ls None = Inr (None, ls)"
  by (simp add: addMaybeExoticLibrary_def)

lemma scanCodes_init_scanned:
  assumes "case stateOf acc of Some (Active (Some c) d) \<Rightarrow> \<not> isLibraryFragment c | _ \<Rightarrow> True"
    and "initOf tx = Some ini" "si_code ini = Some c'" "isLibraryFragment c'"
    and "getLibraryByHash e testnet (fragmentHashHex c') = Inr actualCode"
  shows "scanCodes e testnet acc tx additionalLibs =
           Inr (Some actualCode,
                fold (\<lambda>(h, lib) d. AList.update h lib d) additionalLibs
                  [(int (fragmentHash c'), actualCode)])"
proof -
  have first: "(case stateOf acc of
                  Some (Active c _) \<Rightarrow> addMaybeExoticLibrary e testnet [] c
                | _ \<Rightarrow> Inr (None, [])) = Inr (None, [])"
    using assms(1)
    by (auto simp: addMaybeExoticLibrary_rule addMaybeExoticLibrary_None
        split: option.splits accountState.splits)
  show ?thesis
    unfolding scanCodes_def first using assms(2-)
    by (simp add: addMaybeExoticLibrary_rule)
qed

lemma sample_hash_hex: "fragmentHashHex sampleLibCell = replicate 64 (CHR ''F'')"
  by code_simp

lemma zero_hash_hex: "fragmentHashHex zeroLibCell = replicate 64 (CHR ''0'')"
  by code_simp

lemma zero_lib_fragment: "isLibraryFragment zeroLibCell"
  by (simp add: isLibraryFragment_def zeroLibCell_def bitsOfString_def bitsToNat_def)

text \<open>
  C4: an active account whose code is a library fragment, and an incoming message whose
  \<^verbatim>\<open>StateInit\<close> code is another library fragment that the provider can resolve: the
  scanner resolves the account's code and returns it as the resolved self code, but the
  \<^verbatim>\<open>StateInit\<close> code is not scanned, and its library is missing from the dictionary.
  (When the account's code is not a fragment, \<open>scanCodes_init_scanned\<close> shows that the
  \<^verbatim>\<open>StateInit\<close> code is scanned.)
\<close>

theorem collectUsedLibraries_skips_init:
  "isLibraryFragment sampleLibCell
   \<and> isLibraryFragment zeroLibCell
   \<and> stateOf libraryAccount = Some (Active (Some sampleLibCell) None)
   \<and> initOf deployTx = Some \<lparr>si_code = Some zeroLibCell, si_data = None\<rparr>
   \<and> getLibraryByHash twoLibEnv False (fragmentHashHex zeroLibCell) = Inr otherCode
   \<and> scanCodes twoLibEnv False libraryAccount deployTx [] =
       Inr (Some libraryCode, [(int (fragmentHash sampleLibCell), libraryCode)])
   \<and> collectUsedLibraries twoLibEnv False libraryAccount deployTx [] =
       Inr (Some (Cell False [] [libraryCode]), Some libraryCode)"
proof -
  have st: "stateOf libraryAccount = Some (Active (Some sampleLibCell) None)"
    by (simp add: stateOf_def libraryAccount_def sampleShardAccount_def)
  have ini: "initOf deployTx = Some \<lparr>si_code = Some zeroLibCell, si_data = None\<rparr>"
    by (simp add: initOf_def deployTx_def)
  have ga: "getLibraryByHash twoLibEnv False (fragmentHashHex sampleLibCell) = Inr libraryCode"
    by (simp add: twoLibEnv_def sample_hash_hex)
  have gb: "getLibraryByHash twoLibEnv False (fragmentHashHex zeroLibCell) = Inr otherCode"
    by (simp add: twoLibEnv_def zero_hash_hex)
  have sc: "scanCodes twoLibEnv False libraryAccount deployTx [] =
       Inr (Some libraryCode, [(int (fragmentHash sampleLibCell), libraryCode)])"
    using scanCodes_self_fragment [OF st sample_lib_fragment ga, of deployTx "[]"] by simp
  have co: "collectUsedLibraries twoLibEnv False libraryAccount deployTx [] =
       Inr (Some (Cell False [] [libraryCode]), Some libraryCode)"
    by (simp add: collectUsedLibraries_def sc) (simp add: twoLibEnv_def sampleEnv_def)
  from sample_lib_fragment zero_lib_fragment st ini gb sc co show ?thesis by simp
qed



subsection \<open>The pipeline and the retry controller\<close>

lemma sample_minLt: "computeMinLt sampleToString sampleTx sampleAddress sampleBlock = Inr 90"
  by (simp add: computeMinLt_def sampleBlock_def sampleToString_def sampleAddress_def
      minLtStep_def BigInt_90 BigInt_120 sampleTx_def)

lemma sample_collect:
  "collectUsedLibraries sampleEnv False (sampleShardAccount 1 Uninit) sampleTx [] = Inr (None, None)"
  by (simp add: collectUsedLibraries_def scanCodes_def stateOf_def sampleShardAccount_def
      initOf_def sampleTx_def internalMessage_def)

lemma sample_emulate:
  "emulate sampleEnv cfg ls seed (sampleTx\<lparr>lt := n\<rparr>) s =
     Inr \<lparr>result = Success \<lparr>r_transaction = ''11'', r_shardAccount = s @ ''1'',
                              r_vmLog = ''vm'', r_actions = None\<rparr>,
          logs = ''L'', debugLogs = ''D''\<rparr>"
  by (simp add: emulate_def sampleTx_def sampleEnv_def)

lemma sample_decode_11:
  "shardAccountOfBase64 sampleEnv ''11'' = Inr (sampleShardAccount 3 Uninit)"
  by (simp add: shardAccountOfBase64_def sampleEnv_def asSlice_def beginParse_def
      bitsOfString_def bitsToNat_def)

lemma sample_replay:
  "emulatePreviousTransactions sampleEnv 1 [txAt 1] (pureEngine (emulate sampleEnv cfg ls seed)) ''1'' () =
     (Inr (3, ''11''), ())"
  by (simp add: emulatePreviousTransactions_def pureEngine_def txAt_def sample_emulate
      sample_decode_11 balanceOf_def sampleShardAccount_def)

lemma sample_reconstruct:
  "reconstruct sampleEnv False sampleBaseTx [] = Inr sampleReconstruction"
proof -
  have env:
    "\<And>b. findRawTxByHash sampleEnv False b =
       Inr [\<lparr>rt_block = \<lparr>br_workchain = 0, br_shard = ''8000000000000000'',
                          br_seqno = 7, rootHash = ''R'', fileHash = ''F''\<rparr>,
              rt_tx = sampleTx\<rparr>]"
    "\<And>tx. findShardBlockForTx sampleEnv False tx =
       Inr (Some \<lparr>root_hash = ''R'', masterchain_block_ref_seqno = 5, rand_seed = ''c2VlZA''\<rparr>)"
    "\<And>n. findFullBlockForSeqno sampleEnv False n = Inr sampleBlock"
    "\<And>b m. findAllTransactionsBetween sampleEnv False b m = Inr [sampleTx, txAt 1]"
    "\<And>b. getBlockConfig sampleEnv False b = Inr ''cfg''"
    "\<And>a b. getBlockAccount sampleEnv False a b = Inr (sampleShardAccount 1 Uninit)"
    "Blockchain_create sampleEnv = Inr \<lparr>commitHash = ''c0'', commitDate = ''d0''\<rparr>"
    "\<And>sa. shardAccountToBase64 sampleEnv sa = Inr ''1''"
    "addressToString sampleEnv = sampleToString"
    by (simp_all add: sampleEnv_def)
  have ba: "b_address sampleBaseTx = sampleAddress"
    by (simp add: sampleBaseTx_def)
  have bal: "balanceOf (sampleShardAccount 1 Uninit) = 1"
    by (simp add: balanceOf_def sampleShardAccount_def)
  have st: "stateOf (sampleShardAccount 1 Uninit) = Some Uninit"
    by (simp add: stateOf_def sampleShardAccount_def)
  have ini: "initOf sampleTx = None"
    by (simp add: initOf_def sampleTx_def internalMessage_def)
  have em: "emulate sampleEnv cfg ls seed sampleTx s =
     Inr \<lparr>result = Success \<lparr>r_transaction = ''11'', r_shardAccount = s @ ''1'',
                              r_vmLog = ''vm'', r_actions = None\<rparr>,
          logs = ''L'', debugLogs = ''D''\<rparr>" for cfg ls seed s
    using sample_emulate [of cfg ls seed 100 s] by (simp add: sampleTx_def)
  show ?thesis
    unfolding reconstruct_def
    by (simp add: env ba sample_minLt sample_collect bal st ini sample_replay em
        sampleReconstruction_def sampleSuccess_def Let_def)
qed


text \<open>
  C3: once the target transaction has been emulated with success and the remaining steps
  (decoding the actions and the results, reading the opcode, serialising the transaction)
  have raised nothing, \<open>retraceBaseTx\<close> returns the complete report whether or not the
  emulated state hash equals the one on chain; the flag \<open>stateUpdateHashOk\<close> of the report
  is true exactly when the two hashes are equal, byte for byte.
\<close>

theorem state_hash_mismatch_is_flagged:
  assumes "reconstruct e testnet baseTx additionalLibs = Inr rc"
    and "result (rc_txRes rc) = Success res"
    and "findFinalActions e res = Inr (finalActions, c5cell)"
    and "computeFinalData e res (rc_prevBalance rc) = Inr fd"
    and "txOpcode (rc_ourTx rc) = Inr opc"
    and "transactionToBocHex e (rc_ourTx rc) = Inr rawHex"
  shows "retraceBaseTx e testnet baseTx additionalLibs =
           Inr \<lparr>stateUpdateHashOk = (newHash (fd_emulatedTx fd) = newHash (rc_ourTx rc)),
                codeCell = (case rc_loadedCode rc of Some c \<Rightarrow> Some c | None \<Rightarrow> rc_codeCell rc),
                originalCodeCell = rc_codeCell rc,
                inMsg = \<lparr>sender = fd_sender fd, contract = fd_contract fd,
                         amount = fd_amount fd, opcode = opc\<rparr>,
                money = fd_money fd,
                emulatedTx = \<lparr>raw = rawHex,
                              utime = now (fd_emulatedTx fd),
                              t_lt = lt (fd_emulatedTx fd),
                              computeInfo = fd_computeInfo fd,
                              executorLogs = logs (rc_txRes rc),
                              actions = finalActions,
                              c5 = c5cell,
                              vmLogs = r_vmLog res\<rparr>,
                emulatorVersion = rc_emulatorVersion rc\<rparr>"
  using assms by (simp add: retraceBaseTx_def report_def)

lemma sample_actions: "findFinalActions sampleEnv sampleSuccess = Inr ([], None)"
  by (simp add: findFinalActions_def sampleSuccess_def)

lemma sample_opcode: "txOpcode sampleTx = Inr None"
  by (simp add: txOpcode_def sampleTx_def internalMessage_def emptyCell_def asSlice_def
      beginParse_def isBounced_def remainingBits_def)

lemma sample_raw: "transactionToBocHex sampleEnv tx = Inr ''b5ee9c72''"
  by (simp add: sampleEnv_def)

lemma sample_retraceBaseTx: "retraceBaseTx sampleEnv False sampleBaseTx [] = Inr sampleReport"
proof -
  have fd: "computeFinalData sampleEnv sampleSuccess 3 =
     Inr \<lparr>fd_sender = Some otherAddress, fd_contract = sampleAddress,
          fd_money = \<lparr>balanceBefore = 3, sentTotal = 7, m_totalFees = 2, balanceAfter = 7\<rparr>,
          fd_emulatedTx = sampleTx\<lparr>newHash := [3], description := failedDescription\<rparr>,
          fd_amount = Some 5,
          fd_computeInfo = ComputeInfo False 9 10 5 7\<rparr>"
    by (rule sample_finalData)
  show ?thesis
    by (simp add: retraceBaseTx_def sample_reconstruct report_def sampleReconstruction_def
        sample_actions fd sample_opcode sample_raw sampleReport_def)
       (simp add: sampleTx_def sampleSuccess_def)
qed

theorem state_hash_mismatch_is_flagged_witness:
  "reconstruct sampleEnv False sampleBaseTx [] = Inr sampleReconstruction
   \<and> result (rc_txRes sampleReconstruction) = Success sampleSuccess
   \<and> newHash (rc_ourTx sampleReconstruction) = [1, 2, 3]
   \<and> transactionOfBase64 sampleEnv (r_transaction sampleSuccess) =
       Inr (sampleTx\<lparr>newHash := [3], description := failedDescription\<rparr>)
   \<and> retraceBaseTx sampleEnv False sampleBaseTx [] = Inr sampleReport
   \<and> stateUpdateHashOk sampleReport = False"
proof -
  have r: "result (rc_txRes sampleReconstruction) = Success sampleSuccess"
    by (simp add: sampleReconstruction_def)
  have fd: "computeFinalData sampleEnv sampleSuccess (rc_prevBalance sampleReconstruction) =
     Inr \<lparr>fd_sender = Some otherAddress, fd_contract = sampleAddress,
          fd_money = \<lparr>balanceBefore = 3, sentTotal = 7, m_totalFees = 2, balanceAfter = 7\<rparr>,
          fd_emulatedTx = sampleTx\<lparr>newHash := [3], description := failedDescription\<rparr>,
          fd_amount = Some 5,
          fd_computeInfo = ComputeInfo False 9 10 5 7\<rparr>"
    using sample_finalData by (simp add: sampleReconstruction_def)
  have op: "txOpcode (rc_ourTx sampleReconstruction) = Inr None"
    using sample_opcode by (simp add: sampleReconstruction_def)
  have "retraceBaseTx sampleEnv False sampleBaseTx [] = Inr sampleReport"
    using state_hash_mismatch_is_flagged [OF sample_reconstruct r sample_actions fd op sample_raw]
    by (simp add: sampleReport_def sampleReconstruction_def sampleTx_def sampleSuccess_def)
  then show ?thesis
    by (simp add: sample_reconstruct r sampleReport_def sampleReconstruction_def sampleTx_def
        sampleSuccess_def sample_decode_tx [unfolded sampleTx_def])
qed

lemma diagnose_none:
  assumes "computeInfo (emulatedTx res) = ComputeInfo ok ec steps used fees"
    and "logs_parse e (vmLogs (emulatedTx res)) = Inr lines"
    and "missingLibrarySignature lines = None \<or>
         (\<exists>st. missingLibrarySignature lines = Some st \<and> stackTopOrdinary e st)"
  shows "diagnose e testnet res = Inr None"
proof (cases "missingLibrarySignature lines")
  case None
  then show ?thesis by (simp add: diagnose_def assms(1,2))
next
  case (Some st)
  with assms(3) have top: "stackTopOrdinary e st" by simp
  show ?thesis
  proof (cases "atFromEnd st (Suc 0)")
    case None
    then show ?thesis by (simp add: diagnose_def assms(1,2) Some)
  next
    case (Some el)
    note el = this
    show ?thesis
    proof (cases el)
      case (StackCell b)
      with top el obtain c where c: "Cell_fromHex e b = Inr c" and nf: "\<not> isLibraryFragment c"
        by (auto simp: stackTopOrdinary_def split: sum.splits)
      have "tryLoadAsLibrary e b testnet = Inr None"
        using tryLoadAsLibrary_rule [OF c] nf by simp
      then show ?thesis
        by (simp add: diagnose_def assms(1,2) \<open>missingLibrarySignature lines = Some st\<close> el
            StackCell)
    next
      case (OtherElement x)
      then show ?thesis
        by (simp add: diagnose_def assms(1,2) \<open>missingLibrarySignature lines = Some st\<close> el)
    qed
  qed
qed

lemma diagnose_parse_error:
  assumes "computeInfo (emulatedTx res) = ComputeInfo ok 9 steps used fees"
    and "logs_parse e (vmLogs (emulatedTx res)) = Inl err"
  shows "diagnose e testnet res = Inl err"
  using assms by (simp add: diagnose_def)

lemma diagnose_other_exit_code:
  assumes "computeInfo (emulatedTx res) = ComputeInfo ok ec steps used fees" "ec \<noteq> 9"
  shows "diagnose e testnet res = Inr None"
  using assms by (simp add: diagnose_def)

text \<open>
  C2: the pipeline has returned a report whose compute phase ran with a non-zero exit
  code, and the VM log of the report parses. If the tail of the parsed log is not the
  missing-library signature, or it is and the top of the dumped stack does not classify
  as a library fragment, then \<open>retrace\<close> returns that very report, and one run of the
  pipeline suffices: there is no retry. (A log that does not parse and a stack-top cell
  whose BOC does not decode are outside the hypotheses: \<^verbatim>\<open>logs.parse\<close> and
  \<open>tryLoadAsLibrary\<close> raise on them, see \<open>diagnose_parse_error\<close>.)
\<close>

theorem retrace_returns_unmatched_failure:
  assumes "findBaseTxByHash e testnet txLink = Inr (Some baseTx)"
    and "retraceBaseTx e testnet baseTx additionalLibs = Inr res"
    and "computeInfo (emulatedTx res) = ComputeInfo ok ec steps used fees"
    and "ec \<noteq> 0"
    and "logs_parse e (vmLogs (emulatedTx res)) = Inr lines"
    and "missingLibrarySignature lines = None \<or>
         (\<exists>st. missingLibrarySignature lines = Some st \<and> stackTopOrdinary e st)"
  shows "retrace (Suc n) e testnet txLink additionalLibs = Some (Inr res)"
  using assms(1,2) diagnose_none [OF assms(3,5,6)] by simp

lemma sample_parse:
  "logs_parse sampleEnv (vmLogs (emulatedTx sampleReport)) = Inr (signatureLog ''vm'')"
  by (simp add: sampleEnv_def sampleReport_def)

lemma sample_signature:
  "missingLibrarySignature (signatureLog ''vm'') = Some [OtherElement ''0'', StackCell ''vm'']"
  by (simp add: signatureLog_def missingLibrarySignature_def atFromEnd_def)

lemma sample_top_ordinary: "stackTopOrdinary sampleEnv [OtherElement ''0'', StackCell ''vm'']"
  by (simp add: stackTopOrdinary_def atFromEnd_def sampleEnv_def isLibraryFragment_def
      bitsOfString_def)

theorem retrace_returns_unmatched_failure_witness:
  "findBaseTxByHash sampleEnv False ''abc'' = Inr (Some sampleBaseTx)
   \<and> retraceBaseTx sampleEnv False sampleBaseTx [] = Inr sampleReport
   \<and> computeInfo (emulatedTx sampleReport) = ComputeInfo False 9 10 5 7
   \<and> logs_parse sampleEnv (vmLogs (emulatedTx sampleReport)) = Inr (signatureLog ''vm'')
   \<and> missingLibrarySignature (signatureLog ''vm'') = Some [OtherElement ''0'', StackCell ''vm'']
   \<and> stackTopOrdinary sampleEnv [OtherElement ''0'', StackCell ''vm'']
   \<and> retrace (Suc 0) sampleEnv False ''abc'' [] = Some (Inr sampleReport)"
proof -
  have b: "findBaseTxByHash sampleEnv False ''abc'' = Inr (Some sampleBaseTx)"
    by (simp add: sampleEnv_def sampleBaseTx_def)
  have ci: "computeInfo (emulatedTx sampleReport) = ComputeInfo False 9 10 5 7"
    by (simp add: sampleReport_def)
  have nz: "(9::int) \<noteq> 0" by simp
  have sig: "missingLibrarySignature (signatureLog ''vm'') = None \<or>
         (\<exists>st. missingLibrarySignature (signatureLog ''vm'') = Some st \<and>
               stackTopOrdinary sampleEnv st)"
    using sample_signature sample_top_ordinary by simp
  have "retrace (Suc 0) sampleEnv False ''abc'' [] = Some (Inr sampleReport)"
    by (rule retrace_returns_unmatched_failure
        [OF b sample_retraceBaseTx ci nz sample_parse sig])
  with b sample_retraceBaseTx ci sample_parse sample_signature sample_top_ordinary
  show ?thesis by simp
qed

end
